theory Spec2Isabelle
  imports Main "HOL-Library.Sublist"
begin

section \<open>Python values and exceptions\<close>

text \<open>
  The sources are Python. Dictionaries, lists, strings, numbers and \<open>None\<close> that travel
  through the client (call parameters, request dicts, parsed responses, loaded JSON
  documents, configuration sections) are values of one type. A dictionary is an
  association list; lookups take the first binding of a key.
\<close>

datatype json =
    JNull
  | JBool bool
  | JInt int
  | JStr string
  | JList "json list"
  | JDict "(string \<times> json) list"

text \<open>
  Every \<open>raise\<close> of the sources is a value of \<open>exn\<close>; a function that can raise returns
  \<open>exn + 'a\<close> with \<open>Inl\<close> for the exception. \<open>OtherError\<close> stands for any exception raised by
  collaborator code that is not part of the source files (a handler, the serializer,
  the transport, the loader).
\<close>

datatype exn =
    ClientError json string
  | OperationNotPageableError string
  | DataNotFoundError string
  | ValueError string
  | KeyError string
  | TypeError string
  | AttributeError string
  | UnboundLocalError string
  | ServiceError string
  | NotFoundError exn
  | NotSupportedError string
  | TimeoutError string
  | OtherError string

text \<open>Sequencing of steps that can raise: the first exception ends the sequence.\<close>

definition and_then :: "exn + 'a \<Rightarrow> ('a \<Rightarrow> exn + 'b) \<Rightarrow> exn + 'b" where
  "and_then m f = (case m of Inl e \<Rightarrow> Inl e | Inr x \<Rightarrow> f x)"

text \<open>Python's truth value of an object (\<open>if x:\<close>, \<open>if not x:\<close>).\<close>

fun truthy :: "json \<Rightarrow> bool" where
  "truthy JNull = False"
| "truthy (JBool b) = b"
| "truthy (JInt i) = (i \<noteq> 0)"
| "truthy (JStr s) = (s \<noteq> [])"
| "truthy (JList xs) = (xs \<noteq> [])"
| "truthy (JDict kvs) = (kvs \<noteq> [])"

text \<open>\<open>d[k]\<close> for a string key: \<open>KeyError\<close> on a dictionary without the key.\<close>

fun py_getitem :: "json \<Rightarrow> string \<Rightarrow> exn + json" where
  "py_getitem (JDict kvs) k =
     (case map_of kvs k of None \<Rightarrow> Inl (KeyError k) | Some v \<Rightarrow> Inr v)"
| "py_getitem _ k = Inl (TypeError ''subscript'')"

text \<open>\<open>d.get(k, default)\<close>: only dictionaries have the method.\<close>

fun py_get :: "json \<Rightarrow> string \<Rightarrow> json \<Rightarrow> exn + json" where
  "py_get (JDict kvs) k dflt =
     (case map_of kvs k of None \<Rightarrow> Inr dflt | Some v \<Rightarrow> Inr v)"
| "py_get _ k dflt = Inl (AttributeError ''get'')"

text \<open>
  \<open>k in c\<close> for a string \<open>k\<close>: key membership in a dictionary, element membership in a
  list, substring test in a string, \<open>TypeError\<close> on anything else.
\<close>

fun py_contains :: "string \<Rightarrow> json \<Rightarrow> exn + bool" where
  "py_contains k (JDict kvs) = Inr (k \<in> fst ` set kvs)"
| "py_contains k (JList xs) = Inr (JStr k \<in> set xs)"
| "py_contains k (JStr s) = Inr (sublist k s)"
| "py_contains k _ = Inl (TypeError ''not iterable'')"

fun is_dict :: "json \<Rightarrow> bool" where
  "is_dict (JDict kvs) = True"
| "is_dict _ = False"

section \<open>ebcli: the load balancer health query (lib/elb.py)\<close>

text \<open>
  The collaborators of the ebcli functions that are not among the source files:
  \<open>aws.make_api_call\<close>, the string tables of \<open>resources/strings.py\<close>, the event service
  \<open>elasticbeanstalk.get_new_events\<close> and the wall clock. The service answers the \<open>k\<close>-th
  poll of a run with \<open>get_new_events k args\<close>, and the \<open>k\<close>-th reading of
  \<open>datetime.now()\<close> is \<open>now k\<close> (in seconds).
\<close>

record event =
  message :: string
  severity :: string
  event_date :: int
  app_name :: string
  environment_name :: string

record eb_env =
  aws_make_api_call :: "string \<Rightarrow> string \<Rightarrow> (string \<times> json) list \<Rightarrow> exn + json"
  responses :: "string \<Rightarrow> string"
  prompts :: "string \<Rightarrow> string"
  strings :: "string \<Rightarrow> string"
  get_new_events ::
    "nat \<Rightarrow> string option \<times> string option \<times> string option \<times> int option \<Rightarrow> exn + event list"
  now :: "nat \<Rightarrow> int"

definition make_api_call ::
  "eb_env \<Rightarrow> string \<Rightarrow> (string \<times> json) list \<Rightarrow> exn + json" where
  "make_api_call env operation_name operation_options =
     aws_make_api_call env ''elb'' operation_name operation_options"

text \<open>
  \<open>get_health_of_instances\<close>. The local variable \<open>result\<close> is bound only when the call in
  the \<open>try\<close> block returns; it is \<open>None\<close> here while unbound. The \<open>except\<close> clause
  re-raises as \<open>NotFoundError\<close> when the message starts with the not-found response and
  has no \<open>else\<close>; any exception that is not a \<open>ServiceError\<close> passes through. Reading the
  unbound local in the last statement raises \<open>UnboundLocalError\<close>.
\<close>

definition get_health_of_instances :: "eb_env \<Rightarrow> json \<Rightarrow> json \<Rightarrow> exn + json" where
  "get_health_of_instances env load_balancer_name region =
     (case
        (case make_api_call env ''describe-instance-health''
                [(''load_balancer_name'', load_balancer_name), (''region'', region)] of
           Inr r \<Rightarrow> Inr (Some r)
         | Inl (ServiceError msg) \<Rightarrow>
             if prefix (responses env ''loadbalancer.notfound'') msg
             then Inl (NotFoundError (ServiceError msg))
             else Inr None
         | Inl e \<Rightarrow> Inl e)
      of
        Inl e \<Rightarrow> Inl e
      | Inr None \<Rightarrow> Inl (UnboundLocalError ''result'')
      | Inr (Some result) \<Rightarrow> py_getitem result ''InstanceStates'')"

section \<open>ebcli: waiting for the success event (operations/commonops.py)\<close>

text \<open>
  What a run of \<open>wait_for_success_events\<close> does to the outside world, in order: the
  service calls with their arguments, the sleeps, the streamed lines and the calls on
  the streamer.
\<close>

datatype effect =
    GetEventStreamer
  | PromptAppend string
  | GetNewEvents "string option" "string option" "string option" "int option"
  | Sleep int
  | StreamEvent string
  | EndStream

record wstate =
  polls :: nat
  clock_reads :: nat
  effects :: "effect list"

definition log_effect :: "effect \<Rightarrow> wstate \<Rightarrow> wstate" where
  "log_effect e s = s\<lparr>effects := effects s @ [e]\<rparr>"

text \<open>\<open>datetime.now()\<close>: the next reading of the wall clock.\<close>

definition datetime_now :: "eb_env \<Rightarrow> wstate \<Rightarrow> int \<times> wstate" where
  "datetime_now env s = (now env (clock_reads s), s\<lparr>clock_reads := Suc (clock_reads s)\<rparr>)"

text \<open>\<open>time.sleep\<close> refuses a negative duration.\<close>

definition time_sleep :: "int \<Rightarrow> wstate \<Rightarrow> exn + wstate" where
  "time_sleep secs s =
     (if secs < 0 then Inl (ValueError ''sleep length must be non-negative'')
      else Inr (log_effect (Sleep secs) s))"

definition call_get_new_events ::
  "eb_env \<Rightarrow> string option \<Rightarrow> string option \<Rightarrow> string option \<Rightarrow> int option \<Rightarrow> wstate
     \<Rightarrow> (exn + event list) \<times> wstate" where
  "call_get_new_events env app envn request_id last_event_time s =
     (get_new_events env (polls s) (app, envn, request_id, last_event_time),
      log_effect (GetNewEvents app envn request_id last_event_time) (s\<lparr>polls := Suc (polls s)\<rparr>))"

text \<open>\<open>_is_success_string\<close>, test by test in the order of the source.\<close>

definition is_success_string :: "eb_env \<Rightarrow> string \<Rightarrow> exn + bool" where
  "is_success_string env msg =
     (if msg = responses env ''event.greenmessage'' then Inr True
      else if prefix (responses env ''event.launchsuccess'') msg then Inr True
      else if msg = responses env ''event.redmessage'' then Inl (ServiceError msg)
      else if prefix (responses env ''event.launchbad'') msg then Inl (ServiceError msg)
      else if prefix (responses env ''event.updatebad'') msg then Inl (ServiceError msg)
      else if msg = responses env ''event.failedlaunch'' then Inl (ServiceError msg)
      else if msg = responses env ''event.faileddeploy'' then Inl (ServiceError msg)
      else if msg = responses env ''logs.pulled'' then Inr True
      else if prefix (responses env ''logs.fail'') msg then Inl (ServiceError msg)
      else if msg = responses env ''env.terminated'' then Inr True
      else if msg = responses env ''env.updatesuccess'' then Inr True
      else if msg = responses env ''env.configsuccess'' then Inr True
      else if msg = responses env ''app.deletesuccess'' then Inr True
      else if sublist (responses env ''logs.successtail'') msg then Inr True
      else if sublist (responses env ''logs.successbundle'') msg then Inr True
      else if prefix (responses env ''swap.success'') msg then Inr True
      else if prefix (responses env ''create.ecsdockerrun1'') msg
        then Inl (NotSupportedError (prompts env ''create.dockerrunupgrade''))
      else Inr False)"

text \<open>\<open>get_event_string\<close> with \<open>long_format=False\<close>, the form the wait loop uses.\<close>

definition get_event_string :: "event \<Rightarrow> string" where
  "get_event_string ev = severity ev @ '': '' @ message ev"

text \<open>
  The first loop, \<open>while not events\<close>: poll by request id until the service reports an
  event. The loops may run forever, so they take fuel: the result \<open>None\<close> means that the
  fuel ran out before the loop ended. \<open>Inr None\<close> is the \<open>return\<close> on a success message;
  \<open>Inr (Some (app, env, last_time))\<close> leaves the loop with the locals it has bound.
\<close>

fun first_events_loop ::
  "nat \<Rightarrow> eb_env \<Rightarrow> string \<Rightarrow> int \<Rightarrow> bool \<Rightarrow> wstate
     \<Rightarrow> (exn + (string \<times> string \<times> int option) option) option \<times> wstate" where
  "first_events_loop 0 env request_id sleep_time stream_events s = (None, s)"
| "first_events_loop (Suc fuel) env request_id sleep_time stream_events s =
     (case call_get_new_events env None None (Some request_id) None s of
        (Inl e, s1) \<Rightarrow> (Some (Inl e), s1)
      | (Inr events, s1) \<Rightarrow>
          if length events > 0 then
            (let ev = last events;
                 s2 = (if stream_events then log_effect (StreamEvent (get_event_string ev)) s1
                       else s1)
             in case is_success_string env (message ev) of
                  Inl e \<Rightarrow> (Some (Inl e), s2)
                | Inr True \<Rightarrow> (Some (Inr None), s2)
                | Inr False \<Rightarrow>
                    (Some (Inr (Some (app_name ev, environment_name ev, Some (event_date ev)))), s2))
          else
            (case time_sleep sleep_time s1 of
               Inl e \<Rightarrow> (Some (Inl e), s1)
             | Inr s2 \<Rightarrow> first_events_loop fuel env request_id sleep_time stream_events s2))"

text \<open>
  \<open>for event in reversed(events)\<close> of the second loop, over the list already reversed.
  The result is whether the function returned on a success message, and \<open>last_time\<close>.
\<close>

fun stream_new_events ::
  "eb_env \<Rightarrow> bool \<Rightarrow> event list \<Rightarrow> int option \<Rightarrow> wstate \<Rightarrow> (exn + bool \<times> int option) \<times> wstate" where
  "stream_new_events env stream_events [] last_time s = (Inr (False, last_time), s)"
| "stream_new_events env stream_events (ev # evs) last_time s =
     (let s1 = (if stream_events then log_effect (StreamEvent (get_event_string ev)) s else s);
          last_time1 = (if stream_events then Some (event_date ev) else last_time)
      in case is_success_string env (message ev) of
           Inl e \<Rightarrow> (Inl e, s1)
         | Inr True \<Rightarrow> (Inr (True, last_time1), s1)
         | Inr False \<Rightarrow> stream_new_events env stream_events evs last_time1 s1)"

text \<open>
  The second loop, \<open>while (datetime.now() - start) < timediff\<close>. \<open>Inr True\<close> is the
  \<open>return\<close> on a success message, \<open>Inr False\<close> the end of the loop at the deadline.
\<close>

fun remaining_events_loop ::
  "nat \<Rightarrow> eb_env \<Rightarrow> int \<Rightarrow> int \<Rightarrow> int \<Rightarrow> bool \<Rightarrow> string \<Rightarrow> string \<Rightarrow> int option \<Rightarrow> wstate
     \<Rightarrow> (exn + bool) option \<times> wstate" where
  "remaining_events_loop 0 env start timediff sleep_time stream_events app envn last_time s =
     (None, s)"
| "remaining_events_loop (Suc fuel) env start timediff sleep_time stream_events app envn last_time s =
     (case datetime_now env s of
        (t, s0) \<Rightarrow>
          if t - start < timediff then
            (case time_sleep sleep_time s0 of
               Inl e \<Rightarrow> (Some (Inl e), s0)
             | Inr s1 \<Rightarrow>
                 (case call_get_new_events env (Some app) (Some envn) None last_time s1 of
                    (Inl e, s2) \<Rightarrow> (Some (Inl e), s2)
                  | (Inr events, s2) \<Rightarrow>
                      (case stream_new_events env stream_events (rev events) last_time s2 of
                         (Inl e, s3) \<Rightarrow> (Some (Inl e), s3)
                       | (Inr (True, last_time1), s3) \<Rightarrow> (Some (Inr True), s3)
                       | (Inr (False, last_time1), s3) \<Rightarrow>
                           remaining_events_loop fuel env start timediff sleep_time stream_events
                             app envn last_time1 s3)))
          else (Some (Inr False), s0))"

text \<open>
  \<open>wait_for_success_events\<close>. Both loops stand in a \<open>try\<close> whose \<open>finally\<close> ends the
  stream, on a return and on an exception alike; a run that never leaves a loop never
  reaches it. After the \<open>try\<close> the function raises \<open>TimeoutError\<close>.
\<close>

definition wait_for_success_events ::
  "nat \<Rightarrow> eb_env \<Rightarrow> string \<Rightarrow> int option \<Rightarrow> int \<Rightarrow> bool \<Rightarrow> bool \<Rightarrow> wstate
     \<Rightarrow> (exn + unit) option \<times> wstate" where
  "wait_for_success_events fuel env request_id timeout_in_minutes sleep_time stream_events
       can_abort s =
     (if timeout_in_minutes = Some 0 then (Some (Inr ()), s)
      else
        (let timeout = (case timeout_in_minutes of None \<Rightarrow> 10 | Some t \<Rightarrow> t) in
         case datetime_now env s of
           (start, s0) \<Rightarrow>
             (let timediff = timeout * 60;
                  s1 = log_effect GetEventStreamer s0;
                  s2 = (if can_abort
                        then log_effect (PromptAppend (strings env ''events.abortmessage'')) s1
                        else s1)
              in case first_events_loop fuel env request_id sleep_time stream_events s2 of
                   (None, s3) \<Rightarrow> (None, s3)
                 | (Some (Inl e), s3) \<Rightarrow> (Some (Inl e), log_effect EndStream s3)
                 | (Some (Inr None), s3) \<Rightarrow> (Some (Inr ()), log_effect EndStream s3)
                 | (Some (Inr (Some (app, envn, last_time))), s3) \<Rightarrow>
                     (case remaining_events_loop fuel env start timediff sleep_time stream_events
                             app envn last_time s3 of
                        (None, s4) \<Rightarrow> (None, s4)
                      | (Some (Inl e), s4) \<Rightarrow> (Some (Inl e), log_effect EndStream s4)
                      | (Some (Inr True), s4) \<Rightarrow> (Some (Inr ()), log_effect EndStream s4)
                      | (Some (Inr False), s4) \<Rightarrow>
                          (Some (Inl (TimeoutError
                             ''Timed out while waiting for command to Complete'')),
                           log_effect EndStream s4)))))"

text \<open>
  An event service that never reports an event for the request, and a clock that shows
  one more second at each reading.
\<close>

definition silent_env :: eb_env where
  "silent_env =
     \<lparr>aws_make_api_call = (\<lambda>service operation options. Inr (JDict [])),
      responses = (\<lambda>key. key),
      prompts = (\<lambda>key. key),
      strings = (\<lambda>key. key),
      get_new_events = (\<lambda>k args. Inr []),
      now = (\<lambda>k. int k)\<rparr>"

definition fresh_wstate :: wstate where
  "fresh_wstate = \<lparr>polls = 0, clock_reads = 0, effects = []\<rparr>"

text \<open>A service that answers every call with a throttling error.\<close>

definition throttled_env :: eb_env where
  "throttled_env =
     \<lparr>aws_make_api_call = (\<lambda>service operation options. Inl (ServiceError ''Rate exceeded'')),
      responses = (\<lambda>key. if key = ''loadbalancer.notfound''
                          then ''There is no ACTIVE Load Balancer named'' else key),
      prompts = (\<lambda>key. key),
      strings = (\<lambda>key. key),
      get_new_events = (\<lambda>k args. Inr []),
      now = (\<lambda>k. int k)\<rparr>"

section \<open>botocore: service models, objects and the heap (bundled/botocore/client.py)\<close>

text \<open>
  What the client reads of a \<open>ServiceModel\<close>: its names, the default signature version
  and the protocol of its metadata, and the operation names in their order.
\<close>

record service_model =
  service_name :: string
  api_version :: string
  endpoint_prefix :: string
  signing_name :: string
  signature_version :: json
  protocol :: string
  operation_names :: "string list"

datatype operation_model = OperationModel string string

record http_response =
  status_code :: int
  content :: string

text \<open>\<open>Config\<close>: the advanced client configuration, one attribute.\<close>

datatype config = Config json

fun config_signature_version :: "config \<Rightarrow> json" where
  "config_signature_version (Config v) = v"

text \<open>
  A handler is a callable object: the bound method \<open>_sign_request\<close> of the client with
  the given identity, a retry handler built for a retry configuration and an endpoint
  prefix, or any other callable, known by its identity.
\<close>

datatype handler = SignRequest nat | RetryHandler json string | Callable nat

text \<open>
  Modelled from the spec: the event emitter (\<open>botocore.hooks\<close> is not among the source
  files). Its registry is the sequence of registrations in registration order, each an
  event-name pattern, an optional handler id and the handler.
\<close>

record registration =
  reg_pattern :: string
  reg_unique_id :: "string option"
  reg_handler :: handler

type_synonym emitter = "registration list"

text \<open>The arguments with which the source constructs a \<open>RequestSigner\<close>.\<close>

record request_signer =
  signer_service_name :: string
  signer_region_name :: json
  signer_signing_name :: string
  signer_signature_version :: json
  signer_credentials :: json
  signer_event_emitter :: nat

text \<open>
  Objects live in a heap and are held by reference (an address), so that two clients
  can share one object and a copy is a different object. \<open>next_addr\<close> is the next free
  address.
\<close>

datatype obj =
    Serializer string bool
  | Endpoint string json
  | ResponseParser string
  | RequestSigner request_signer
  | EventEmitter emitter

record world =
  heap :: "nat \<rightharpoonup> obj"
  next_addr :: nat

definition alloc :: "obj \<Rightarrow> world \<Rightarrow> nat \<times> world" where
  "alloc ob w =
     (next_addr w, w\<lparr>heap := (heap w)(next_addr w \<mapsto> ob), next_addr := Suc (next_addr w)\<rparr>)"



definition emitter_at :: "world \<Rightarrow> nat \<Rightarrow> emitter option" where
  "emitter_at w a = (case heap w a of Some (EventEmitter em) \<Rightarrow> Some em | _ \<Rightarrow> None)"

definition signer_at :: "world \<Rightarrow> nat \<Rightarrow> request_signer option" where
  "signer_at w a = (case heap w a of Some (RequestSigner sg) \<Rightarrow> Some sg | _ \<Rightarrow> None)"

record client_meta =
  events :: "nat option"

record client =
  client_id :: nat
  serializer :: nat
  endpoint :: nat
  response_parser :: nat
  request_signer :: nat
  cache :: "string \<rightharpoonup> json"
  meta :: client_meta

record client_creator =
  event_emitter :: nat
  user_agent :: string

record waiter_model =
  waiter_config :: json
  waiter_names :: "string list"

datatype waiter = Waiter string waiter_model nat

datatype bound_method = BoundMethod nat string

datatype paginator = Paginator bound_method json

text \<open>
  The collaborators of \<open>client.py\<close> that are not among the source files, as parameters:
  the loader, \<open>xform_name\<close>, the endpoint resolver and creator, the retry configuration
  translator and handler factory, \<open>ServiceModel.operation_model\<close>, the serializer, the
  transport (\<open>Endpoint.make_request\<close>), the waiter module, the constructors of
  \<open>ClientError\<close> (\<open>botocore.exceptions\<close>) and of \<open>Paginator\<close> (\<open>botocore.paginate\<close>), which
  return the new object or raise, and what a registered handler does when an event
  reaches it. A handler receives the keyword payload of the event and
  may mutate the mutable values in it or raise; its result here is the state in which it
  leaves the mutable part of the payload: the parameter mapping, the request dict, or
  the http response with the parsed response.
\<close>

record boto_env =
  loader_load_data :: "string \<Rightarrow> exn + json"
  loader_load_service_model :: "string \<Rightarrow> exn + service_model"
  xform_name :: "string \<Rightarrow> string"
  construct_endpoint :: "string \<Rightarrow> json \<Rightarrow> string \<Rightarrow> exn + json"
  create_endpoint :: "service_model \<Rightarrow> json \<Rightarrow> bool \<Rightarrow> json \<Rightarrow> json \<Rightarrow> exn + string \<times> json"
  build_retry_config :: "string \<Rightarrow> json \<Rightarrow> json \<Rightarrow> exn + json"
  create_retry_handler :: "json \<Rightarrow> string \<Rightarrow> exn + handler"
  operation_model :: "service_model \<Rightarrow> string \<Rightarrow> exn + operation_model"
  serialize_to_request :: "nat \<Rightarrow> json \<Rightarrow> operation_model \<Rightarrow> exn + json"
  make_request :: "nat \<Rightarrow> operation_model \<Rightarrow> json \<Rightarrow> exn + http_response \<times> json"
  on_before_parameter_build :: "handler \<Rightarrow> string \<Rightarrow> operation_model \<Rightarrow> json \<Rightarrow> exn + json"
  on_before_call :: "handler \<Rightarrow> string \<Rightarrow> operation_model \<Rightarrow> nat \<Rightarrow> json \<Rightarrow> exn + json"
  on_after_call ::
    "handler \<Rightarrow> string \<Rightarrow> operation_model \<Rightarrow> http_response \<times> json \<Rightarrow> exn + http_response \<times> json"
  new_waiter_model :: "json \<Rightarrow> exn + waiter_model"
  create_waiter_with_client :: "string \<Rightarrow> waiter_model \<Rightarrow> client \<Rightarrow> exn + waiter"
  new_client_error :: "json \<Rightarrow> string \<Rightarrow> exn + exn"
  new_paginator :: "bound_method \<Rightarrow> json \<Rightarrow> exn + paginator"

section \<open>botocore: the event emitter\<close>

text \<open>
  Modelled from the spec: event names and patterns are dot-segmented. \<open>segments\<close> splits
  a name at its dots, as \<open>str.split('.')\<close> does.
\<close>

fun segments :: "string \<Rightarrow> string list" where
  "segments [] = [[]]"
| "segments (c # cs) =
     (if c = CHR ''.'' then [] # segments cs
      else (case segments cs of [] \<Rightarrow> [[c]] | s # ss \<Rightarrow> (c # s) # ss))"

text \<open>
  Modelled from the spec: \<open>register(eventNamePattern, handler, handlerId)\<close> is idempotent
  by id: registering under an id that is already registered changes nothing; otherwise
  the registration is appended. Without an id the registration is always appended.
\<close>

definition register :: "emitter \<Rightarrow> string \<Rightarrow> handler \<Rightarrow> string option \<Rightarrow> emitter" where
  "register em event_name h unique_id =
     (case unique_id of
        None \<Rightarrow> em @ [\<lparr>reg_pattern = event_name, reg_unique_id = None, reg_handler = h\<rparr>]
      | Some u \<Rightarrow>
          if Some u \<in> set (map reg_unique_id em) then em
          else em @ [\<lparr>reg_pattern = event_name, reg_unique_id = Some u, reg_handler = h\<rparr>])"

text \<open>
  Modelled from the spec: \<open>emit\<close> dispatches to every pattern that is a dot-segmented
  prefix of the event name, most general pattern first, in registration order within a
  pattern. \<open>handlers_to_call\<close> is that sequence of registrations (the sort is stable).
\<close>

definition handlers_to_call :: "emitter \<Rightarrow> string \<Rightarrow> registration list" where
  "handlers_to_call em event_name =
     sort_key (\<lambda>r. length (segments (reg_pattern r)))
       (filter (\<lambda>r. prefix (segments (reg_pattern r)) (segments event_name)) em)"

text \<open>
  Modelled from the spec: the handlers run synchronously, one after the other, each on
  the payload as the one before left it; an exception of a handler ends the dispatch.
\<close>

fun run_handlers :: "('h \<Rightarrow> 'p \<Rightarrow> exn + 'p) \<Rightarrow> 'h list \<Rightarrow> 'p \<Rightarrow> exn + 'p" where
  "run_handlers call [] payload = Inr payload"
| "run_handlers call (h # hs) payload =
     (case call h payload of Inl e \<Rightarrow> Inl e | Inr payload1 \<Rightarrow> run_handlers call hs payload1)"

text \<open>
  Modelled from the spec: \<open>emit(eventName, **payload)\<close> runs the handlers of
  \<open>handlers_to_call\<close> on the payload; \<open>call\<close> is what a handler does with it.
\<close>

definition emit :: "(handler \<Rightarrow> 'p \<Rightarrow> exn + 'p) \<Rightarrow> emitter \<Rightarrow> string \<Rightarrow> 'p \<Rightarrow> exn + 'p" where
  "emit call em event_name payload =
     run_handlers call (map reg_handler (handlers_to_call em event_name)) payload"

text \<open>\<open>register\<close> on the emitter object at an address.\<close>

definition emitter_register ::
  "world \<Rightarrow> nat \<Rightarrow> string \<Rightarrow> handler \<Rightarrow> string option \<Rightarrow> world" where
  "emitter_register w a event_name h unique_id =
     (case emitter_at w a of
        None \<Rightarrow> w
      | Some em \<Rightarrow> w\<lparr>heap := (heap w)(a \<mapsto> EventEmitter (register em event_name h unique_id))\<rparr>)"

text \<open>
  Modelled from the spec: \<open>copy()\<close> produces an independent emitter whose handler lists
  are snapshotted at copy time: a new object with the registrations of the original.
  \<open>copy_object\<close> is \<open>copy.copy\<close> on a reference.
\<close>

definition copy_object :: "world \<Rightarrow> nat \<Rightarrow> nat \<times> world" where
  "copy_object w a = (case heap w a of None \<Rightarrow> (a, w) | Some ob \<Rightarrow> alloc ob w)"

text \<open>
  Every registration under one id stands at most once: the state of every emitter built
  by \<open>register\<close> from the empty one.
\<close>

definition distinct_ids :: "emitter \<Rightarrow> bool" where
  "distinct_ids em = distinct (filter (\<lambda>u. u \<noteq> None) (map reg_unique_id em))"

section \<open>botocore: ClientCreator\<close>

text \<open>
  \<open>_register_retries\<close>: nothing is registered when the retry data is empty; otherwise the
  handler built for the endpoint prefix is registered under the id derived from it.
\<close>

definition register_retries ::
  "boto_env \<Rightarrow> world \<Rightarrow> client_creator \<Rightarrow> service_model \<Rightarrow> (exn + unit) \<times> world" where
  "register_retries env w creator sm =
     (case loader_load_data env ''aws/_retry'' of
        Inl e \<Rightarrow> (Inl e, w)
      | Inr original_config \<Rightarrow>
          if \<not> truthy original_config then (Inr (), w)
          else
            (case and_then (py_get original_config ''retry'' (JDict [])) (\<lambda>retry.
                  and_then (py_get original_config ''definitions'' (JDict [])) (\<lambda>definitions.
                  and_then (build_retry_config env (endpoint_prefix sm) retry definitions)
                    (\<lambda>retry_config.
                  create_retry_handler env retry_config (endpoint_prefix sm)))) of
               Inl e \<Rightarrow> (Inl e, w)
             | Inr h \<Rightarrow>
                 (Inr (),
                  emitter_register w (event_emitter creator)
                    (''needs-retry.'' @ endpoint_prefix sm) h
                    (Some (''retry-config-'' @ endpoint_prefix sm)))))"

text \<open>\<open>_load_service_model\<close>.\<close>

definition load_service_model ::
  "boto_env \<Rightarrow> world \<Rightarrow> client_creator \<Rightarrow> string \<Rightarrow> (exn + service_model) \<times> world" where
  "load_service_model env w creator name =
     (case loader_load_service_model env (''aws/'' @ name) of
        Inl e \<Rightarrow> (Inl e, w)
      | Inr sm \<Rightarrow>
          (case register_retries env w creator sm of
             (Inl e, w1) \<Rightarrow> (Inl e, w1)
           | (Inr u, w1) \<Rightarrow> (Inr sm, w1)))"

text \<open>\<open>_get_signature_version_and_region\<close>.\<close>

definition get_signature_version_and_region ::
  "boto_env \<Rightarrow> service_model \<Rightarrow> json \<Rightarrow> bool \<Rightarrow> json \<Rightarrow> exn + json \<times> json" where
  "get_signature_version_and_region env sm region_name is_secure scoped_config =
     and_then (construct_endpoint env (endpoint_prefix sm) region_name
                 (if is_secure then ''https'' else ''http'')) (\<lambda>endpoint_config.
     and_then (py_get endpoint_config ''properties'' (JDict [])) (\<lambda>properties.
     and_then (py_contains ''signatureVersion'' properties) (\<lambda>has_property.
     and_then (if has_property
               then and_then (py_getitem endpoint_config ''properties'')
                      (\<lambda>p. py_getitem p ''signatureVersion'')
               else Inr (signature_version sm)) (\<lambda>signature_version1.
     and_then (if scoped_config \<noteq> JNull
               then and_then (py_get scoped_config (endpoint_prefix sm) JNull) (\<lambda>service_config.
                      if service_config \<noteq> JNull \<and> is_dict service_config
                      then and_then (py_get service_config ''signature_version'' JNull)
                             (\<lambda>override.
                                Inr (if truthy override then override else signature_version1))
                      else Inr signature_version1)
               else Inr signature_version1) (\<lambda>signature_version2.
     Inr (signature_version2, region_name))))))"

record client_args =
  args_serializer :: nat
  args_endpoint :: nat
  args_response_parser :: nat
  args_event_emitter :: nat
  args_request_signer :: nat

text \<open>
  \<open>_get_client_args\<close>: the serializer, a copy of the creator's emitter, the endpoint, the
  response parser and the request signer, each a new object.
\<close>

definition get_client_args ::
  "boto_env \<Rightarrow> world \<Rightarrow> client_creator \<Rightarrow> service_model \<Rightarrow> json \<Rightarrow> bool \<Rightarrow> json \<Rightarrow> json \<Rightarrow> json
     \<Rightarrow> json \<Rightarrow> config option \<Rightarrow> exn + client_args \<times> world" where
  "get_client_args env w creator sm region_name is_secure endpoint_url verify credentials
       scoped_config client_config =
     (case alloc (Serializer (protocol sm) True) w of
        (serializer_ref, w1) \<Rightarrow>
     (case copy_object w1 (event_emitter creator) of
        (emitter_ref, w2) \<Rightarrow>
     and_then (create_endpoint env sm region_name is_secure endpoint_url verify)
       (\<lambda>(host, endpoint_region_name).
     (case alloc (Endpoint host endpoint_region_name) w2 of
        (endpoint_ref, w3) \<Rightarrow>
     (case alloc (ResponseParser (protocol sm)) w3 of
        (parser_ref, w4) \<Rightarrow>
     and_then (get_signature_version_and_region env sm endpoint_region_name is_secure
                 scoped_config)
       (\<lambda>(signature_version1, region_name1).
     (let signature_version2 =
            (case client_config of
               None \<Rightarrow> signature_version1
             | Some cfg \<Rightarrow>
                 if config_signature_version cfg \<noteq> JNull then config_signature_version cfg
                 else signature_version1)
      in case alloc (RequestSigner
                \<lparr>signer_service_name = service_name sm,
                 signer_region_name = region_name1,
                 signer_signing_name = signing_name sm,
                 signer_signature_version = signature_version2,
                 signer_credentials = credentials,
                 signer_event_emitter = emitter_ref\<rparr>) w4 of
           (signer_ref, w5) \<Rightarrow>
             Inr (\<lparr>args_serializer = serializer_ref,
                   args_endpoint = endpoint_ref,
                   args_response_parser = parser_ref,
                   args_event_emitter = emitter_ref,
                   args_request_signer = signer_ref\<rparr>, w5))))))))"

text \<open>\<open>_create_name_mapping\<close>: the Python method name of every operation.\<close>

definition create_name_mapping :: "boto_env \<Rightarrow> service_model \<Rightarrow> (string \<rightharpoonup> string)" where
  "create_name_mapping env sm =
     foldl (\<lambda>mapping operation_name. mapping(xform_name env operation_name \<mapsto> operation_name))
       Map.empty (operation_names sm)"

text \<open>
  The signature version with which \<open>_get_client_args\<close> constructs the client's
  \<open>RequestSigner\<close>, read from the signer object it returns.
\<close>

definition signature_version_used ::
  "boto_env \<Rightarrow> world \<Rightarrow> client_creator \<Rightarrow> service_model \<Rightarrow> json \<Rightarrow> bool \<Rightarrow> json \<Rightarrow> json \<Rightarrow> json
     \<Rightarrow> json \<Rightarrow> config option \<Rightarrow> exn + json" where
  "signature_version_used env w creator sm region_name is_secure endpoint_url verify credentials
       scoped_config client_config =
     and_then (get_client_args env w creator sm region_name is_secure endpoint_url verify
                 credentials scoped_config client_config)
       (\<lambda>(args, w1).
          case signer_at w1 (args_request_signer args) of
            None \<Rightarrow> Inl (AttributeError ''request_signer'')
          | Some sg \<Rightarrow> Inr (signer_signature_version sg))"

text \<open>
  The four sources of a signature version, in the words of the specification: (a) the
  version explicitly passed in the client configuration, (b) the \<open>signatureVersion\<close>
  property of the resolved endpoint, (c) the \<open>signature_version\<close> entry of the scoped
  configuration's section for the endpoint prefix, (d) the default of the service model.
  \<open>first_present\<close> takes the first source that is present, in the order given.
\<close>

definition explicit_override :: "config option \<Rightarrow> json option" where
  "explicit_override client_config =
     (case client_config of
        None \<Rightarrow> None
      | Some cfg \<Rightarrow>
          if config_signature_version cfg = JNull then None
          else Some (config_signature_version cfg))"

definition endpoint_property :: "json \<Rightarrow> json option" where
  "endpoint_property endpoint_config =
     (case endpoint_config of
        JDict kvs \<Rightarrow>
          (case map_of kvs ''properties'' of
             Some (JDict ps) \<Rightarrow> map_of ps ''signatureVersion''
           | _ \<Rightarrow> None)
      | _ \<Rightarrow> None)"

definition scoped_override :: "json \<Rightarrow> string \<Rightarrow> json option" where
  "scoped_override scoped_config section_name =
     (case scoped_config of
        JDict kvs \<Rightarrow>
          (case map_of kvs section_name of
             Some (JDict service_config) \<Rightarrow>
               (case map_of service_config ''signature_version'' of
                  Some v \<Rightarrow> if truthy v then Some v else None
                | None \<Rightarrow> None)
           | _ \<Rightarrow> None)
      | _ \<Rightarrow> None)"

fun first_present :: "json option list \<Rightarrow> json \<Rightarrow> json" where
  "first_present [] dflt = dflt"
| "first_present (None # rest) dflt = first_present rest dflt"
| "first_present (Some v # rest) dflt = v"

text \<open>The precedence as the specification states it: (a), (b), (c), (d).\<close>

definition claimed_signature_version ::
  "config option \<Rightarrow> json \<Rightarrow> json \<Rightarrow> service_model \<Rightarrow> json" where
  "claimed_signature_version client_config endpoint_config scoped_config sm =
     first_present
       [explicit_override client_config,
        endpoint_property endpoint_config,
        scoped_override scoped_config (endpoint_prefix sm)]
       (signature_version sm)"

section \<open>botocore: BaseClient and ClientMeta\<close>






section \<open>botocore: the synthesized operation method\<close>

text \<open>
  The calls that \<open>_api_call\<close> makes on its collaborators, in the order in which it makes
  them, each with its arguments; the last entry is the status-code test with the
  response it examines.
\<close>

datatype payload =
    Params json operation_model
  | Request operation_model json nat
  | Response http_response json operation_model

datatype step =
    Emit string payload
  | Serialize json operation_model
  | MakeRequest operation_model json
  | StatusCheck http_response json

definition event_name_for :: "string \<Rightarrow> service_model \<Rightarrow> string \<Rightarrow> string" where
  "event_name_for stage sm operation_name =
     stage @ ''.'' @ endpoint_prefix sm @ ''.'' @ operation_name"

text \<open>
  \<open>_api_call\<close>, the method that \<open>_create_api_method\<close> builds for \<open>operation_name\<close>: the
  result of the call, with the calls made on the way. In
  \<open>raise ClientError(parsed_response, operation_name)\<close> the constructor runs first: the
  call raises the exception it returns, or the one it raises itself.
\<close>

definition api_call ::
  "boto_env \<Rightarrow> world \<Rightarrow> service_model \<Rightarrow> string \<Rightarrow> client \<Rightarrow> json \<Rightarrow> (exn + json) \<times> step list" where
  "api_call env w sm operation_name self kwargs =
     (case operation_model env sm operation_name of
        Inl e \<Rightarrow> (Inl e, [])
      | Inr model \<Rightarrow>
     (case (case events (meta self) of None \<Rightarrow> None | Some a \<Rightarrow> emitter_at w a) of
        None \<Rightarrow> (Inl (AttributeError ''emit''), [])
      | Some em \<Rightarrow>
     (let n1 = event_name_for ''before-parameter-build'' sm operation_name;
          t1 = [Emit n1 (Params kwargs model)]
      in case emit (\<lambda>h. on_before_parameter_build env h n1 model) em n1 kwargs of
           Inl e \<Rightarrow> (Inl e, t1)
         | Inr kwargs1 \<Rightarrow>
     (let t2 = t1 @ [Serialize kwargs1 model]
      in case serialize_to_request env (serializer self) kwargs1 model of
           Inl e \<Rightarrow> (Inl e, t2)
         | Inr request_dict \<Rightarrow>
     (let n3 = event_name_for ''before-call'' sm operation_name;
          t3 = t2 @ [Emit n3 (Request model request_dict (request_signer self))]
      in case emit (\<lambda>h. on_before_call env h n3 model (request_signer self)) em n3
                request_dict of
           Inl e \<Rightarrow> (Inl e, t3)
         | Inr request_dict1 \<Rightarrow>
     (let t4 = t3 @ [MakeRequest model request_dict1]
      in case make_request env (endpoint self) model request_dict1 of
           Inl e \<Rightarrow> (Inl e, t4)
         | Inr (http, parsed_response) \<Rightarrow>
     (let n5 = event_name_for ''after-call'' sm operation_name;
          t5 = t4 @ [Emit n5 (Response http parsed_response model)]
      in case emit (\<lambda>h. on_after_call env h n5 model) em n5 (http, parsed_response) of
           Inl e \<Rightarrow> (Inl e, t5)
         | Inr (http1, parsed_response1) \<Rightarrow>
     (let t6 = t5 @ [StatusCheck http1 parsed_response1]
      in if status_code http1 \<ge> 300
         then (case new_client_error env parsed_response1 operation_name of
                 Inl e \<Rightarrow> (Inl e, t6)
               | Inr client_error \<Rightarrow> (Inl client_error, t6))
         else (Inr parsed_response1, t6)))))))))"

text \<open>The name under which each kind of call appears in the lifecycle of an operation.\<close>

fun step_label :: "step \<Rightarrow> string" where
  "step_label (Emit n p) = n"
| "step_label (Serialize params model) = ''serialize''"
| "step_label (MakeRequest model request_dict) = ''make_request''"
| "step_label (StatusCheck http parsed) = ''status-code check''"

definition lifecycle :: "service_model \<Rightarrow> string \<Rightarrow> string list" where
  "lifecycle sm operation_name =
     [event_name_for ''before-parameter-build'' sm operation_name,
      ''serialize'',
      event_name_for ''before-call'' sm operation_name,
      ''make_request'',
      event_name_for ''after-call'' sm operation_name,
      ''status-code check'']"

section \<open>botocore: pagination and waiters\<close>

text \<open>
  \<open>can_paginate\<close>: the page configuration is loaded on the first use and kept in the
  cache of the client; a missing paginators file is cached as the empty dictionary.
  The client is returned with its cache as the call leaves it.
\<close>

definition can_paginate ::
  "boto_env \<Rightarrow> service_model \<Rightarrow> (string \<rightharpoonup> string) \<Rightarrow> client \<Rightarrow> string \<Rightarrow> (exn + bool) \<times> client" where
  "can_paginate env sm name_mapping self operation_name =
     (case
        (if ''page_config'' \<notin> dom (cache self) then
           (case loader_load_data env
                   (''aws/'' @ service_name sm @ ''/'' @ api_version sm @ ''.paginators'') of
              Inr data \<Rightarrow>
                (case py_getitem data ''pagination'' of
                   Inl e \<Rightarrow> Inl e
                 | Inr page_config \<Rightarrow> Inr (self\<lparr>cache := (cache self)(''page_config'' \<mapsto> page_config)\<rparr>))
            | Inl (DataNotFoundError x) \<Rightarrow>
                Inr (self\<lparr>cache := (cache self)(''page_config'' \<mapsto> JDict [])\<rparr>)
            | Inl e \<Rightarrow> Inl e)
         else Inr self) of
        Inl e \<Rightarrow> (Inl e, self)
      | Inr self1 \<Rightarrow>
          (case name_mapping operation_name of
             None \<Rightarrow> (Inl (KeyError operation_name), self1)
           | Some actual_operation_name \<Rightarrow>
               (case cache self1 ''page_config'' of
                  None \<Rightarrow> (Inl (KeyError ''page_config''), self1)
                | Some page_config \<Rightarrow> (py_contains actual_operation_name page_config, self1))))"

text \<open>\<open>get_paginator\<close>.\<close>

definition get_paginator ::
  "boto_env \<Rightarrow> service_model \<Rightarrow> (string \<rightharpoonup> string) \<Rightarrow> client \<Rightarrow> string
     \<Rightarrow> (exn + paginator) \<times> client" where
  "get_paginator env sm name_mapping self operation_name =
     (case can_paginate env sm name_mapping self operation_name of
        (Inl e, self1) \<Rightarrow> (Inl e, self1)
      | (Inr False, self1) \<Rightarrow> (Inl (OperationNotPageableError operation_name), self1)
      | (Inr True, self1) \<Rightarrow>
          (case name_mapping operation_name of
             None \<Rightarrow> (Inl (KeyError operation_name), self1)
           | Some actual_operation_name \<Rightarrow>
               (case cache self1 ''page_config'' of
                  None \<Rightarrow> (Inl (KeyError ''page_config''), self1)
                | Some page_config \<Rightarrow>
                    (case py_getitem page_config actual_operation_name of
                       Inl e \<Rightarrow> (Inl e, self1)
                     | Inr entry \<Rightarrow>
                         (new_paginator env (BoundMethod (client_id self1) operation_name) entry,
                          self1)))))"

text \<open>
  The lazily loaded page configuration in the words of the specification: the cached
  one when the cache has one, otherwise the \<open>pagination\<close> entry of the paginators file,
  and the empty mapping when there is no such file.
\<close>

definition lazy_page_config :: "boto_env \<Rightarrow> service_model \<Rightarrow> client \<Rightarrow> exn + json" where
  "lazy_page_config env sm self =
     (case cache self ''page_config'' of
        Some page_config \<Rightarrow> Inr page_config
      | None \<Rightarrow>
          (case loader_load_data env
                  (''aws/'' @ service_name sm @ ''/'' @ api_version sm @ ''.paginators'') of
             Inl (DataNotFoundError x) \<Rightarrow> Inr (JDict [])
           | Inl e \<Rightarrow> Inl e
           | Inr data \<Rightarrow> py_getitem data ''pagination''))"

text \<open>\<open>_get_waiter_config\<close>.\<close>

definition get_waiter_config ::
  "boto_env \<Rightarrow> service_model \<Rightarrow> client \<Rightarrow> (exn + json) \<times> client" where
  "get_waiter_config env sm self =
     (case cache self ''waiter_config'' of
        Some config \<Rightarrow> (Inr config, self)
      | None \<Rightarrow>
          (case loader_load_data env
                  (''aws/'' @ service_name sm @ ''/'' @ api_version sm @ ''.waiters'') of
             Inr config \<Rightarrow> (Inr config, self\<lparr>cache := (cache self)(''waiter_config'' \<mapsto> config)\<rparr>)
           | Inl (DataNotFoundError x) \<Rightarrow>
               (Inr (JDict []), self\<lparr>cache := (cache self)(''waiter_config'' \<mapsto> JDict [])\<rparr>)
           | Inl e \<Rightarrow> (Inl e, self)))"

text \<open>
  The mapping that \<open>get_waiter\<close> builds from the normalized waiter names to the names of
  the configuration; of two names with one normalized form the later one stays.
\<close>

definition waiter_name_mapping :: "boto_env \<Rightarrow> string list \<Rightarrow> (string \<rightharpoonup> string)" where
  "waiter_name_mapping env names =
     foldl (\<lambda>mapping name. mapping(xform_name env name \<mapsto> name)) Map.empty names"

text \<open>\<open>get_waiter\<close>.\<close>

definition get_waiter ::
  "boto_env \<Rightarrow> service_model \<Rightarrow> client \<Rightarrow> string \<Rightarrow> (exn + waiter) \<times> client" where
  "get_waiter env sm self waiter_name =
     (case get_waiter_config env sm self of
        (Inl e, self1) \<Rightarrow> (Inl e, self1)
      | (Inr config, self1) \<Rightarrow>
          if \<not> truthy config
          then (Inl (ValueError (''Waiter does not exist: '' @ waiter_name)), self1)
          else
            (case new_waiter_model env config of
               Inl e \<Rightarrow> (Inl e, self1)
             | Inr model \<Rightarrow>
                 (case waiter_name_mapping env (waiter_names model) waiter_name of
                    None \<Rightarrow> (Inl (ValueError (''Waiter does not exist: '' @ waiter_name)), self1)
                  | Some name \<Rightarrow> (create_waiter_with_client env name model self1, self1))))"

text \<open>Loading the service model of one name \<open>n\<close> times in a row.\<close>

definition load_times :: "nat \<Rightarrow> boto_env \<Rightarrow> client_creator \<Rightarrow> string \<Rightarrow> world \<Rightarrow> world" where
  "load_times n env creator name w =
     ((\<lambda>w. snd (load_service_model env w creator name)) ^^ n) w"

section \<open>A concrete service, for evaluating the model\<close>

definition s3_model :: service_model where
  "s3_model =
     \<lparr>service_name = ''s3'', api_version = ''2006-03-01'', endpoint_prefix = ''s3'',
      signing_name = ''s3'', signature_version = JStr ''s3v2'', protocol = ''rest-xml'',
      operation_names = [''ListObjects'', ''GetObject'']\<rparr>"

text \<open>The endpoint that the resolver of the example constructs.\<close>

definition example_endpoint_config :: json where
  "example_endpoint_config =
     JDict [(''uri'', JStr ''https://s3.amazonaws.com''),
            (''properties'', JDict [(''signatureVersion'', JStr ''v4'')])]"

text \<open>The page configuration entry of the one paginated operation.\<close>

definition example_page_entry :: json where
  "example_page_entry =
     JDict [(''input_token'', JStr ''Marker''), (''output_token'', JStr ''NextMarker''),
            (''result_key'', JStr ''Contents'')]"

text \<open>The retry configuration that the translator of the example builds for the service.\<close>

definition example_retry_config :: json where
  "example_retry_config =
     JDict [(''service'', JStr ''s3''), (''retry'', JDict [(''__default__'', JDict [])]),
            (''definitions'', JDict [])]"

text \<open>The parsed error response of the transport of the example.\<close>

definition example_error_response :: json where
  "example_error_response =
     JDict [(''Error'', JDict [(''Code'', JStr ''NoSuchKey''),
                               (''Message'', JStr ''The specified key does not exist.'')])]"

text \<open>
  A loader that knows the retry data, the paginators of the service and its waiters; an
  endpoint resolver whose endpoint carries the property \<open>signatureVersion\<close>; a transport
  that answers \<open>GetObject\<close> with status 404 and every other operation with status 200;
  handlers that leave every payload as it is, but for the callable 8, which adds a
  default for \<open>MaxKeys\<close> to the parameters before they are built; constructors of
  \<open>ClientError\<close> and \<open>Paginator\<close> that read the keys they need and raise \<open>KeyError\<close> without
  them.
\<close>

definition example_env :: boto_env where
  "example_env =
     \<lparr>loader_load_data = (\<lambda>path.
        if path = ''aws/_retry''
          then Inr (JDict [(''retry'', JDict [(''__default__'', JDict [])]),
                           (''definitions'', JDict [])])
        else if path = ''aws/s3/2006-03-01.paginators''
          then Inr (JDict [(''pagination'', JDict [(''ListObjects'', example_page_entry)])])
        else if path = ''aws/s3/2006-03-01.waiters''
          then Inr (JDict [(''version'', JInt 2),
                           (''waiters'', JDict [(''BucketExists'', JDict [])])])
        else Inl (DataNotFoundError path)),
      loader_load_service_model = (\<lambda>name.
        if name = ''aws/s3'' then Inr s3_model else Inl (DataNotFoundError name)),
      xform_name = (\<lambda>name.
        if name = ''ListObjects'' then ''list_objects''
        else if name = ''GetObject'' then ''get_object''
        else if name = ''BucketExists'' then ''bucket_exists''
        else name),
      construct_endpoint = (\<lambda>service region scheme. Inr example_endpoint_config),
      create_endpoint = (\<lambda>sm region is_secure endpoint_url verify.
        Inr (''https://s3.amazonaws.com'', JStr ''us-east-1'')),
      build_retry_config = (\<lambda>endpoint_prefix retry definitions.
        Inr (JDict [(''service'', JStr endpoint_prefix), (''retry'', retry),
                    (''definitions'', definitions)])),
      create_retry_handler = (\<lambda>retry_config endpoint_prefix.
        Inr (RetryHandler retry_config endpoint_prefix)),
      operation_model = (\<lambda>sm name.
        if name \<in> set (operation_names sm) then Inr (OperationModel (service_name sm) name)
        else Inl (OtherError ''OperationNotFoundError'')),
      serialize_to_request = (\<lambda>serializer_ref params model. Inr (JDict [(''body'', params)])),
      make_request = (\<lambda>endpoint_ref model request_dict.
        if model = OperationModel ''s3'' ''GetObject''
        then Inr (\<lparr>status_code = 404, content = ''''\<rparr>, example_error_response)
        else Inr (\<lparr>status_code = 200, content = ''''\<rparr>, JDict [(''Contents'', JList [])])),
      on_before_parameter_build = (\<lambda>h name model params.
        if h = Callable 8
        then (case params of
                JDict kvs \<Rightarrow> Inr (JDict (kvs @ [(''MaxKeys'', JInt 1000)]))
              | _ \<Rightarrow> Inr params)
        else Inr params),
      on_before_call = (\<lambda>h name model signer_ref request_dict. Inr request_dict),
      on_after_call = (\<lambda>h name model response. Inr response),
      new_waiter_model = (\<lambda>config.
        case py_getitem config ''waiters'' of
          Inr (JDict ws) \<Rightarrow> Inr \<lparr>waiter_config = config, waiter_names = map fst ws\<rparr>
        | _ \<Rightarrow> Inl (OtherError ''WaiterConfigError'')),
      create_waiter_with_client = (\<lambda>name model c. Inr (Waiter name model (client_id c))),
      new_client_error = (\<lambda>error_response operation_name.
        and_then (py_getitem error_response ''Error'') (\<lambda>error.
        and_then (py_getitem error ''Code'') (\<lambda>code.
        and_then (py_getitem error ''Message'') (\<lambda>msg.
        Inr (ClientError error_response operation_name))))),
      new_paginator = (\<lambda>method pagination_config.
        and_then (py_getitem pagination_config ''output_token'') (\<lambda>output_token.
        and_then (py_getitem pagination_config ''input_token'') (\<lambda>input_token.
        Inr (Paginator method pagination_config))))\<rparr>"

text \<open>A creator whose emitter, still without registrations, is the only object.\<close>

definition example_creator :: client_creator where
  "example_creator = \<lparr>event_emitter = 0, user_agent = ''Botocore''\<rparr>"

definition example_world :: world where
  "example_world = \<lparr>heap = [0 \<mapsto> EventEmitter []], next_addr = 1\<rparr>"

text \<open>A scoped configuration that overrides the signature version of the service.\<close>

definition example_scoped_config :: json where
  "example_scoped_config = JDict [(''s3'', JDict [(''signature_version'', JStr ''s3'')])]"

text \<open>A client of the service on the emitter of the example world.\<close>

definition example_client :: client where
  "example_client =
     \<lparr>client_id = 5, serializer = 1, endpoint = 2, response_parser = 3, request_signer = 4,
      cache = Map.empty, meta = \<lparr>events = Some 0\<rparr>\<rparr>"


text \<open>
  A world in which the emitter of the example client holds the callable 8 for the
  parameter-build events of the service.
\<close>

definition hooked_world :: world where
  "hooked_world =
     \<lparr>heap = [0 \<mapsto> EventEmitter
                      [\<lparr>reg_pattern = ''before-parameter-build.s3'', reg_unique_id = None,
                        reg_handler = Callable 8\<rparr>]],
      next_addr = 6\<rparr>"

section \<open>Properties of the load balancer health query\<close>

text \<open>
  C9. When the describe-instance-health call raises a \<open>ServiceError\<close> whose message does
  not start with the load-balancer-not-found response, \<open>get_health_of_instances\<close> neither
  re-raises nor converts it: the final statement reads the unbound local \<open>result\<close>, and
  the caller sees that failure, not the \<open>ServiceError\<close>.
\<close>

theorem get_health_of_instances_unbound_local:
  assumes "aws_make_api_call env ''elb'' ''describe-instance-health''
             [(''load_balancer_name'', load_balancer_name), (''region'', region)]
           = Inl (ServiceError msg)"
    and "\<not> prefix (responses env ''loadbalancer.notfound'') msg"
  shows "get_health_of_instances env load_balancer_name region = Inl (UnboundLocalError ''result'')
         \<and> get_health_of_instances env load_balancer_name region \<noteq> Inl (ServiceError msg)
         \<and> get_health_of_instances env load_balancer_name region
             \<noteq> Inl (NotFoundError (ServiceError msg))"
  using assms by (simp add: get_health_of_instances_def make_api_call_def)

theorem get_health_of_instances_unbound_local_witness:
  "aws_make_api_call throttled_env ''elb'' ''describe-instance-health''
       [(''load_balancer_name'', JStr ''lb''), (''region'', JNull)]
     = Inl (ServiceError ''Rate exceeded'')
   \<and> \<not> prefix (responses throttled_env ''loadbalancer.notfound'') ''Rate exceeded''
   \<and> get_health_of_instances throttled_env (JStr ''lb'') JNull
     = Inl (UnboundLocalError ''result'')"
  using get_health_of_instances_unbound_local
          [of throttled_env "JStr ''lb''" JNull "''Rate exceeded''"]
  by (simp add: throttled_env_def)

section \<open>Properties of the wait for the success event\<close>

text \<open>
  C10. Called with \<open>timeout_in_minutes\<close> equal to 0, \<open>wait_for_success_events\<close> returns at
  once: no service call, no streamed event, no exception, the outside world untouched.
  Called with \<open>None\<close> it behaves as with a budget of 10 minutes.
\<close>

theorem wait_for_success_events_zero_and_default:
  "wait_for_success_events fuel env request_id (Some 0) sleep_time stream_events can_abort s
     = (Some (Inr ()), s)
   \<and> wait_for_success_events fuel env request_id None sleep_time stream_events can_abort s
     = wait_for_success_events fuel env request_id (Some 10) sleep_time stream_events can_abort s"
  by (simp add: wait_for_success_events_def)

text \<open>
  While the service reports no event for the request, the first loop polls and sleeps
  and never reads the clock: every unit of fuel is spent on one more poll.
\<close>

lemma first_events_loop_silent:
  "0 \<le> sleep_time \<Longrightarrow>
   \<exists>s'. first_events_loop fuel silent_env request_id sleep_time stream_events s = (None, s')
      \<and> polls s' = polls s + fuel \<and> clock_reads s' = clock_reads s"
proof (induction fuel arbitrary: s)
  case 0
  then show ?case by simp
next
  case (Suc fuel)
  let ?s2 = "log_effect (Sleep sleep_time)
               (log_effect (GetNewEvents None None (Some request_id) None)
                  (s\<lparr>polls := Suc (polls s)\<rparr>))"
  from Suc.IH [OF Suc.prems, of ?s2] obtain s' where
    "first_events_loop fuel silent_env request_id sleep_time stream_events ?s2 = (None, s')"
    "polls s' = polls ?s2 + fuel" "clock_reads s' = clock_reads ?s2"
    by blast
  with Suc.prems show ?case
    by (simp add: call_get_new_events_def silent_env_def time_sleep_def log_effect_def)
qed

text \<open>
  C8 (the code at the failing input). With a budget of one minute, a sleep of five
  seconds and a service that never reports an event for the request, the run does not
  end, whatever the fuel: it has polled once per unit of fuel, has read the clock only
  for the start time, and has raised no \<open>TimeoutError\<close>.
\<close>

theorem wait_for_success_events_never_times_out:
  "fst (wait_for_success_events fuel silent_env ''req-1'' (Some 1) 5 True False fresh_wstate)
     = None
   \<and> polls (snd (wait_for_success_events fuel silent_env ''req-1'' (Some 1) 5 True False
                   fresh_wstate)) = fuel
   \<and> clock_reads (snd (wait_for_success_events fuel silent_env ''req-1'' (Some 1) 5 True False
                         fresh_wstate)) = 1"
proof -
  let ?s2 = "log_effect GetEventStreamer (fresh_wstate\<lparr>clock_reads := Suc 0\<rparr>)"
  obtain s' where
    "first_events_loop fuel silent_env ''req-1'' 5 True ?s2 = (None, s')"
    "polls s' = polls ?s2 + fuel" "clock_reads s' = clock_reads ?s2"
    using first_events_loop_silent [of 5 fuel "''req-1''" True ?s2] by auto
  then show ?thesis
    by (simp add: wait_for_success_events_def datetime_now_def fresh_wstate_def log_effect_def)
qed

text \<open>
  The second loop does check the deadline. While the service answers every poll with
  events that carry neither a success nor a failure message, the loop ends as soon as a
  reading of the clock is past the deadline: if the reading number \<open>d\<close> from now on is
  past it, \<open>d + 1\<close> units of fuel are enough, and the loop ends by its condition.
\<close>

lemma stream_new_events_quiet:
  "\<forall>ev \<in> set evs. is_success_string env (message ev) = Inr False
     \<Longrightarrow> \<exists>last_time1 s1. stream_new_events env stream_events evs last_time s
                           = (Inr (False, last_time1), s1)
           \<and> clock_reads s1 = clock_reads s"
proof (induction evs arbitrary: last_time s)
  case Nil
  show ?case by simp
next
  case (Cons ev evs)
  let ?s1 = "if stream_events then log_effect (StreamEvent (get_event_string ev)) s else s"
  let ?l1 = "if stream_events then Some (event_date ev) else last_time"
  from Cons.prems have q: "\<forall>ev \<in> set evs. is_success_string env (message ev) = Inr False"
    and h: "is_success_string env (message ev) = Inr False"
    by simp_all
  from Cons.IH [OF q, of ?l1 ?s1] obtain last_time1 s1 where
    "stream_new_events env stream_events evs ?l1 ?s1 = (Inr (False, last_time1), s1)"
    "clock_reads s1 = clock_reads ?s1"
    by blast
  with h show ?case
    by (simp add: Let_def log_effect_def)
qed

lemma remaining_events_loop_deadline:
  assumes "\<forall>k args. \<exists>evs. get_new_events env k args = Inr evs
             \<and> (\<forall>ev \<in> set evs. is_success_string env (message ev) = Inr False)"
    and "0 \<le> sleep_time"
    and "timediff \<le> now env (clock_reads s + d) - start"
  shows "\<exists>fuel s1. 0 < fuel \<and> fuel \<le> Suc d
           \<and> remaining_events_loop fuel env start timediff sleep_time stream_events app envn
                 last_time s = (Some (Inr False), s1)"
  using assms(3)
proof (induction d arbitrary: s last_time)
  case 0
  then have "remaining_events_loop (Suc 0) env start timediff sleep_time stream_events app envn
               last_time s = (Some (Inr False), s\<lparr>clock_reads := Suc (clock_reads s)\<rparr>)"
    by (simp add: datetime_now_def)
  then show ?case by (intro exI [of _ "Suc 0"] exI conjI) simp_all
next
  case (Suc d)
  show ?case
  proof (cases "now env (clock_reads s) - start < timediff")
    case False
    then have "remaining_events_loop (Suc 0) env start timediff sleep_time stream_events app envn
                 last_time s = (Some (Inr False), s\<lparr>clock_reads := Suc (clock_reads s)\<rparr>)"
      by (simp add: datetime_now_def)
    then show ?thesis by (intro exI [of _ "Suc 0"] exI conjI) simp_all
  next
    case True
    let ?s1 = "log_effect (Sleep sleep_time) (s\<lparr>clock_reads := Suc (clock_reads s)\<rparr>)"
    let ?s2 = "log_effect (GetNewEvents (Some app) (Some envn) None last_time)
                 (?s1\<lparr>polls := Suc (polls ?s1)\<rparr>)"
    from assms(1) obtain evs where
      g: "get_new_events env (polls ?s1) (Some app, Some envn, None, last_time) = Inr evs" and
      q: "\<forall>ev \<in> set evs. is_success_string env (message ev) = Inr False"
      by blast
    from q have "\<forall>ev \<in> set (rev evs). is_success_string env (message ev) = Inr False"
      by simp
    from stream_new_events_quiet [OF this, of stream_events last_time ?s2]
    obtain last_time1 s3 where
      st: "stream_new_events env stream_events (rev evs) last_time ?s2
             = (Inr (False, last_time1), s3)" and
      c: "clock_reads s3 = clock_reads ?s2"
      by blast
    from c have c3: "clock_reads s3 = Suc (clock_reads s)"
      by (simp add: log_effect_def)
    from Suc.prems c3 have "timediff \<le> now env (clock_reads s3 + d) - start"
      by simp
    from Suc.IH [OF this, of last_time1] obtain fuel s4 where
      f: "0 < fuel" "fuel \<le> Suc d" and
      r: "remaining_events_loop fuel env start timediff sleep_time stream_events app envn
            last_time1 s3 = (Some (Inr False), s4)"
      by blast
    from True assms(2) g st r
    have "remaining_events_loop (Suc fuel) env start timediff sleep_time stream_events app envn
            last_time s = (Some (Inr False), s4)"
      by (simp add: datetime_now_def time_sleep_def call_get_new_events_def)
    with f show ?thesis
      by (intro exI [of _ "Suc fuel"] exI [of _ s4] conjI) simp_all
  qed
qed

text \<open>
  So a run whose first poll reports an event, and whose later polls never report a
  success or a failure message, ends in \<open>TimeoutError\<close> once a reading of the clock is
  past the budget: the wait is unbounded only while no first event has arrived.
\<close>

lemma wait_for_success_events_times_out_after_first_event:
  assumes "\<forall>k args. \<exists>evs. get_new_events env k args = Inr evs
             \<and> (\<forall>ev \<in> set evs. is_success_string env (message ev) = Inr False)"
    and "get_new_events env (polls s) (None, None, Some request_id, None) = Inr evs0"
    and "evs0 \<noteq> []"
    and "0 \<le> sleep_time"
    and "timeout_in_minutes \<noteq> Some 0"
    and "(case timeout_in_minutes of None \<Rightarrow> 10 | Some t \<Rightarrow> t) * 60
           \<le> now env (Suc (clock_reads s) + d) - now env (clock_reads s)"
  shows "\<exists>fuel s1. wait_for_success_events fuel env request_id timeout_in_minutes sleep_time
                     stream_events can_abort s
                   = (Some (Inl (TimeoutError
                        ''Timed out while waiting for command to Complete'')), s1)"
proof -
  let ?start = "now env (clock_reads s)"
  let ?timediff = "(case timeout_in_minutes of None \<Rightarrow> 10 | Some t \<Rightarrow> t) * 60"
  let ?s1 = "log_effect GetEventStreamer (s\<lparr>clock_reads := Suc (clock_reads s)\<rparr>)"
  let ?s2 = "if can_abort
             then log_effect (PromptAppend (strings env ''events.abortmessage'')) ?s1
             else ?s1"
  let ?ev = "last evs0"
  from assms(1) assms(2) have "\<forall>ev \<in> set evs0. is_success_string env (message ev) = Inr False"
    by (metis Inr_inject)
  with assms(3) have h: "is_success_string env (message ?ev) = Inr False"
    by simp
  have p: "polls ?s2 = polls s" and c: "clock_reads ?s2 = Suc (clock_reads s)"
    by (simp_all add: log_effect_def)
  define s3 where
    "s3 = (let s2a = log_effect (GetNewEvents None None (Some request_id) None)
                       (?s2\<lparr>polls := Suc (polls ?s2)\<rparr>)
           in if stream_events then log_effect (StreamEvent (get_event_string ?ev)) s2a
              else s2a)"
  have first: "first_events_loop (Suc n) env request_id sleep_time stream_events ?s2
                 = (Some (Inr (Some (app_name ?ev, environment_name ?ev, Some (event_date ?ev)))),
                    s3)" for n
    using assms(2) assms(3) h p
    by (simp add: call_get_new_events_def s3_def Let_def)
  have c3: "clock_reads s3 = Suc (clock_reads s)"
    using c by (simp add: s3_def Let_def log_effect_def)
  from assms(6) c3 have "?timediff \<le> now env (clock_reads s3 + d) - ?start"
    by simp
  from remaining_events_loop_deadline [OF assms(1) assms(4) this,
         of stream_events "app_name ?ev" "environment_name ?ev" "Some (event_date ?ev)"]
  obtain fuel s4 where f: "0 < fuel" and
    r: "remaining_events_loop fuel env ?start ?timediff sleep_time stream_events
          (app_name ?ev) (environment_name ?ev) (Some (event_date ?ev)) s3
        = (Some (Inr False), s4)"
    by blast
  from f obtain n where n: "fuel = Suc n"
    by (cases fuel) auto
  from first [of n] r n assms(5)
  have "wait_for_success_events fuel env request_id timeout_in_minutes sleep_time
          stream_events can_abort s
        = (Some (Inl (TimeoutError ''Timed out while waiting for command to Complete'')),
           log_effect EndStream s4)"
    by (simp add: wait_for_success_events_def datetime_now_def Let_def)
  then show ?thesis by blast
qed

section \<open>Properties of the signature version resolution\<close>

text \<open>Facts about the Python values.\<close>

lemma and_then_Inr_iff: "and_then m f = Inr y \<longleftrightarrow> (\<exists>x. m = Inr x \<and> f x = Inr y)"
  by (cases m) (simp_all add: and_then_def)

lemma map_of_absent: "k \<notin> fst ` set kvs \<Longrightarrow> map_of kvs k = None"
  by (simp add: map_of_eq_None_iff)

lemma endpoint_override_step:
  assumes "py_get ec ''properties'' (JDict []) = Inr properties"
    and "py_contains ''signatureVersion'' properties = Inr has"
    and "(if has then and_then (py_getitem ec ''properties'') (\<lambda>p. py_getitem p ''signatureVersion'')
          else Inr dflt) = Inr sv1"
  shows "sv1 = first_present [endpoint_property ec] dflt"
proof (cases ec)
  case (JDict kvs)
  show ?thesis
  proof (cases "map_of kvs ''properties''")
    case None
    with assms JDict show ?thesis
      by (auto simp: endpoint_property_def)
  next
    case (Some p)
    with assms JDict have p: "properties = p" by simp
    show ?thesis
    proof (cases has)
      case True
      with assms JDict Some p show ?thesis
        by (cases p) (auto simp: endpoint_property_def and_then_def image_iff split: option.splits)
    next
      case False
      with assms JDict Some p show ?thesis
        by (cases p) (auto simp: endpoint_property_def map_of_absent split: option.splits)
    qed
  qed
qed (use assms in simp_all)

lemma scoped_override_step:
  assumes "(if sc \<noteq> JNull
            then and_then (py_get sc section_name JNull) (\<lambda>service_config.
                   if service_config \<noteq> JNull \<and> is_dict service_config
                   then and_then (py_get service_config ''signature_version'' JNull)
                          (\<lambda>override. Inr (if truthy override then override else sv1))
                   else Inr sv1)
            else Inr sv1) = Inr sv"
  shows "sv = first_present [scoped_override sc section_name] sv1"
proof (cases sc)
  case JNull
  with assms show ?thesis by (simp add: scoped_override_def)
next
  case (JDict kvs)
  show ?thesis
  proof (cases "map_of kvs section_name")
    case None
    with assms JDict show ?thesis by (simp add: scoped_override_def and_then_def)
  next
    case (Some service_config)
    with assms JDict show ?thesis
      by (cases service_config)
         (auto simp: scoped_override_def and_then_def split: option.splits if_splits)
  qed
qed (use assms in \<open>simp_all add: and_then_def\<close>)

lemma get_signature_version_and_region_precedence:
  assumes "construct_endpoint env (endpoint_prefix sm) rn (if is_secure then ''https'' else ''http'')
             = Inr ec"
    and "get_signature_version_and_region env sm rn is_secure sc = Inr (sv, rn1)"
  shows "sv = first_present [scoped_override sc (endpoint_prefix sm), endpoint_property ec]
                (signature_version sm) \<and> rn1 = rn"
proof -
  from assms obtain properties has sv1 where
    p: "py_get ec ''properties'' (JDict []) = Inr properties" and
    h: "py_contains ''signatureVersion'' properties = Inr has" and
    s1: "(if has then and_then (py_getitem ec ''properties'') (\<lambda>p. py_getitem p ''signatureVersion'')
          else Inr (signature_version sm)) = Inr sv1" and
    s2: "(if sc \<noteq> JNull
            then and_then (py_get sc (endpoint_prefix sm) JNull) (\<lambda>service_config.
                   if service_config \<noteq> JNull \<and> is_dict service_config
                   then and_then (py_get service_config ''signature_version'' JNull)
                          (\<lambda>override. Inr (if truthy override then override else sv1))
                   else Inr sv1)
            else Inr sv1) = Inr sv" and
    r: "rn1 = rn"
    unfolding get_signature_version_and_region_def and_then_Inr_iff by auto
  have a: "sv1 = first_present [endpoint_property ec] (signature_version sm)"
    by (rule endpoint_override_step [OF p h s1])
  have b: "sv = first_present [scoped_override sc (endpoint_prefix sm)] sv1"
    by (rule scoped_override_step [OF s2])
  show ?thesis
    using a b r by (cases "scoped_override sc (endpoint_prefix sm)") simp_all
qed


text \<open>
  C5, as the code has it. The signature version with which the client's \<open>RequestSigner\<close>
  is constructed is chosen by this precedence, highest first: (a) the version explicitly
  passed in the client configuration, (c) the \<open>signature_version\<close> entry of the scoped
  configuration's section for the endpoint prefix, (b) the \<open>signatureVersion\<close> property
  of the resolved endpoint, (d) the default of the service model. The configuration file
  overrides the endpoint, not the other way round.
\<close>

theorem signature_version_precedence:
  assumes "create_endpoint env sm region_name is_secure endpoint_url verify = Inr (host, rn)"
    and "construct_endpoint env (endpoint_prefix sm) rn (if is_secure then ''https'' else ''http'')
           = Inr ec"
    and "signature_version_used env w creator sm region_name is_secure endpoint_url verify
           credentials scoped_config client_config = Inr v"
  shows "v = first_present
               [explicit_override client_config,
                scoped_override scoped_config (endpoint_prefix sm),
                endpoint_property ec]
               (signature_version sm)"
proof -
  from assms(3) assms(1) obtain sv1 rn1 where
    g: "get_signature_version_and_region env sm rn is_secure scoped_config = Inr (sv1, rn1)" and
    v: "v = (case client_config of
               None \<Rightarrow> sv1
             | Some cfg \<Rightarrow>
                 if config_signature_version cfg \<noteq> JNull then config_signature_version cfg
                 else sv1)"
    by (auto simp: signature_version_used_def get_client_args_def and_then_Inr_iff alloc_def
          copy_object_def signer_at_def Let_def split: prod.splits option.splits)
  from get_signature_version_and_region_precedence [OF assms(2) g]
  have "sv1 = first_present [scoped_override scoped_config (endpoint_prefix sm),
                             endpoint_property ec] (signature_version sm)"
    by simp
  with v show ?thesis
    by (cases client_config) (simp_all add: explicit_override_def)
qed

theorem signature_version_precedence_witness:
  "create_endpoint example_env s3_model (JStr ''us-east-1'') True JNull JNull
     = Inr (''https://s3.amazonaws.com'', JStr ''us-east-1'')
   \<and> construct_endpoint example_env (endpoint_prefix s3_model) (JStr ''us-east-1'') ''https''
     = Inr example_endpoint_config
   \<and> signature_version_used example_env example_world example_creator s3_model
       (JStr ''us-east-1'') True JNull JNull JNull example_scoped_config None = Inr (JStr ''s3'')
   \<and> JStr ''s3'' = first_present
               [explicit_override None,
                scoped_override example_scoped_config (endpoint_prefix s3_model),
                endpoint_property example_endpoint_config]
               (signature_version s3_model)"
  using signature_version_precedence
          [where env = example_env and sm = s3_model and region_name = "JStr ''us-east-1''"
             and is_secure = True and endpoint_url = JNull and verify = JNull
             and host = "''https://s3.amazonaws.com''" and rn = "JStr ''us-east-1''"
             and ec = example_endpoint_config and w = example_world
             and creator = example_creator and credentials = JNull
             and scoped_config = example_scoped_config and client_config = None
             and v = "JStr ''s3''"]
  by (simp add: example_env_def s3_model_def example_world_def example_creator_def
        example_scoped_config_def example_endpoint_config_def signature_version_used_def
        get_client_args_def get_signature_version_and_region_def and_then_def alloc_def
        copy_object_def signer_at_def)

text \<open>
  C5 as stated, with the endpoint property (b) above the scoped configuration (c), fails:
  for an endpoint with the property \<open>v4\<close>, a scoped configuration with the entry \<open>s3\<close>
  and no client configuration, the signer is constructed with \<open>s3\<close>, where the stated
  precedence gives \<open>v4\<close>.
\<close>

theorem signature_version_precedence_counterexample:
  "construct_endpoint example_env (endpoint_prefix s3_model) (JStr ''us-east-1'') ''https''
     = Inr example_endpoint_config
   \<and> signature_version_used example_env example_world example_creator s3_model
       (JStr ''us-east-1'') True JNull JNull JNull example_scoped_config None = Inr (JStr ''s3'')
   \<and> claimed_signature_version None example_endpoint_config example_scoped_config s3_model
     = JStr ''v4''"
  by (simp add: example_env_def s3_model_def example_world_def example_creator_def
        example_scoped_config_def example_endpoint_config_def signature_version_used_def
        get_client_args_def get_signature_version_and_region_def and_then_def alloc_def
        copy_object_def signer_at_def claimed_signature_version_def explicit_override_def
        endpoint_property_def scoped_override_def)

section \<open>Properties of the event emitter and of the retry registration\<close>

lemma segments_nonempty: "segments s \<noteq> []"
  by (induction s) (auto split: list.splits)

lemma segments_append_dot: "segments (a @ CHR ''.'' # b) = segments a @ segments b"
proof (induction a)
  case Nil
  show ?case by simp
next
  case (Cons c a)
  obtain s ss where "segments a = s # ss"
    using segments_nonempty [of a] by (cases "segments a") auto
  with Cons show ?case by simp
qed

lemma register_idempotent:
  "register (register em p h (Some u)) p1 h1 (Some u) = register em p h (Some u)"
  by (simp add: register_def)

lemma distinct_ids_register: "distinct_ids em \<Longrightarrow> distinct_ids (register em p h uid)"
  by (cases uid) (auto simp: distinct_ids_def register_def)

lemma distinct_ids_count:
  "distinct_ids em \<Longrightarrow> length (filter (\<lambda>r. reg_unique_id r = Some u) em) \<le> 1"
proof (induction em)
  case Nil
  show ?case by simp
next
  case (Cons r em)
  from Cons.prems have d: "distinct_ids em"
    by (auto simp: distinct_ids_def split: if_splits)
  show ?case
  proof (cases "reg_unique_id r = Some u")
    case True
    with Cons.prems have "Some u \<notin> set (map reg_unique_id em)"
      by (auto simp: distinct_ids_def)
    then have "filter (\<lambda>r. reg_unique_id r = Some u) em = []"
      by (force simp: filter_empty_conv)
    with True show ?thesis by simp
  next
    case False
    with Cons.IH [OF d] show ?thesis by simp
  qed
qed

lemma length_filter_conj_le: "length (filter (\<lambda>x. Q x \<and> P x) xs) \<le> length (filter P xs)"
  by (induction xs) auto

lemma handlers_to_call_count:
  "length (filter P (handlers_to_call em event_name)) \<le> length (filter P em)"
  by (simp add: handlers_to_call_def filter_sort length_filter_conj_le)

lemma handlers_to_call_member:
  "r \<in> set em \<Longrightarrow> prefix (segments (reg_pattern r)) (segments event_name)
     \<Longrightarrow> r \<in> set (handlers_to_call em event_name)"
  by (simp add: handlers_to_call_def)

lemma emitter_at_register:
  "emitter_at w a = Some em
     \<Longrightarrow> emitter_at (emitter_register w a p h u) a = Some (register em p h u)"
  by (simp add: emitter_register_def emitter_at_def)

text \<open>One load of the service model leaves the creator's emitter as it is or registers
  one retry handler on it.\<close>

lemma load_service_model_emitter:
  assumes "loader_load_service_model env (''aws/'' @ name) = Inr sm"
    and "emitter_at w (event_emitter creator) = Some em"
  shows "emitter_at (snd (load_service_model env w creator name)) (event_emitter creator) = Some em
         \<or> (\<exists>h. emitter_at (snd (load_service_model env w creator name)) (event_emitter creator)
                  = Some (register em (''needs-retry.'' @ endpoint_prefix sm) h
                            (Some (''retry-config-'' @ endpoint_prefix sm))))"
  using assms
  by (auto simp: load_service_model_def register_retries_def emitter_at_register
        split: sum.splits)

text \<open>When the retry data is there, every load registers the handler that the factory
  builds for the retry configuration that the translator builds from that data.\<close>

lemma load_service_model_registers:
  assumes "loader_load_service_model env (''aws/'' @ name) = Inr sm"
    and "loader_load_data env ''aws/_retry'' = Inr original_config"
    and "truthy original_config"
    and "py_get original_config ''retry'' (JDict []) = Inr retry"
    and "py_get original_config ''definitions'' (JDict []) = Inr definitions"
    and "build_retry_config env (endpoint_prefix sm) retry definitions = Inr retry_config"
    and "create_retry_handler env retry_config (endpoint_prefix sm) = Inr h"
    and "emitter_at w (event_emitter creator) = Some em"
  shows "emitter_at (snd (load_service_model env w creator name)) (event_emitter creator)
           = Some (register em (''needs-retry.'' @ endpoint_prefix sm) h
                     (Some (''retry-config-'' @ endpoint_prefix sm)))"
  using assms
  by (simp add: load_service_model_def register_retries_def emitter_at_register and_then_def)

text \<open>When the retry data is empty, a load registers nothing.\<close>

lemma load_service_model_no_retry_data:
  assumes "loader_load_data env ''aws/_retry'' = Inr original_config"
    and "\<not> truthy original_config"
  shows "snd (load_service_model env w creator name) = w"
  using assms
  by (simp add: load_service_model_def register_retries_def split: sum.splits)

lemma loads_emitter:
  assumes "loader_load_service_model env (''aws/'' @ name) = Inr sm"
    and "emitter_at w (event_emitter creator) = Some em"
  shows "emitter_at (((\<lambda>w. snd (load_service_model env w creator name)) ^^ n) w)
           (event_emitter creator) = Some em
         \<or> (\<exists>h. emitter_at (((\<lambda>w. snd (load_service_model env w creator name)) ^^ n) w)
                  (event_emitter creator)
                  = Some (register em (''needs-retry.'' @ endpoint_prefix sm) h
                            (Some (''retry-config-'' @ endpoint_prefix sm))))"
proof (induction n)
  case 0
  show ?case using assms(2) by simp
next
  case (Suc n)
  let ?w = "((\<lambda>w. snd (load_service_model env w creator name)) ^^ n) w"
  from Suc show ?case
  proof
    assume "emitter_at ?w (event_emitter creator) = Some em"
    from load_service_model_emitter [OF assms(1) this] show ?thesis by simp
  next
    assume "\<exists>h. emitter_at ?w (event_emitter creator)
                  = Some (register em (''needs-retry.'' @ endpoint_prefix sm) h
                            (Some (''retry-config-'' @ endpoint_prefix sm)))"
    then obtain h where
      "emitter_at ?w (event_emitter creator)
         = Some (register em (''needs-retry.'' @ endpoint_prefix sm) h
                   (Some (''retry-config-'' @ endpoint_prefix sm)))"
      by blast
    from load_service_model_emitter [OF assms(1) this] show ?thesis
      by (auto simp: register_idempotent)
  qed
qed

lemma loads_registered:
  assumes "loader_load_service_model env (''aws/'' @ name) = Inr sm"
    and "\<forall>w em. emitter_at w (event_emitter creator) = Some em \<longrightarrow>
           emitter_at (snd (load_service_model env w creator name)) (event_emitter creator)
             = Some (register em (''needs-retry.'' @ endpoint_prefix sm) h
                       (Some (''retry-config-'' @ endpoint_prefix sm)))"
    and "emitter_at w (event_emitter creator) = Some em"
  shows "emitter_at (((\<lambda>w. snd (load_service_model env w creator name)) ^^ Suc n) w)
           (event_emitter creator)
         = Some (register em (''needs-retry.'' @ endpoint_prefix sm) h
                   (Some (''retry-config-'' @ endpoint_prefix sm)))"
proof (induction n)
  case 0
  show ?case using assms(2) assms(3) by simp
next
  case (Suc n)
  from assms(2) Suc show ?case by (simp add: register_idempotent)
qed

lemma short_list_member: "length xs \<le> 1 \<Longrightarrow> x \<in> set xs \<Longrightarrow> xs = [x]"
  by (cases xs) auto

text \<open>
  C4. Loading a service model registers the retry handler for the pattern
  \<open>needs-retry.<endpointPrefix>\<close> under the id \<open>retry-config-<endpointPrefix>\<close>. However
  often the same service model is loaded, the emitter holds at most one registration
  under that id, and for every emitted event at most one handler registered under it
  fires. When the retry data is empty, or the id is taken already, the registry stays as
  it is. When the retry data is there, the id was free before and the model was loaded
  at least once, the registry is the one before with exactly one registration added: the
  handler that the factory builds for the retry configuration that the translator
  builds for the endpoint prefix from the \<open>retry\<close> and \<open>definitions\<close> entries of the data;
  that handler fires exactly once for every event \<open>needs-retry.<endpointPrefix>.<op>\<close>.
\<close>

theorem retry_handler_registered_once:
  assumes "loader_load_service_model env (''aws/'' @ name) = Inr sm"
    and "emitter_at w (event_emitter creator) = Some em"
    and "distinct_ids em"
  shows "\<exists>em1. emitter_at (load_times n env creator name w) (event_emitter creator) = Some em1
           \<and> length (filter (\<lambda>r. reg_unique_id r = Some (''retry-config-'' @ endpoint_prefix sm))
                       em1) \<le> 1
           \<and> (\<forall>event_name.
                 length (filter (\<lambda>r. reg_unique_id r = Some (''retry-config-'' @ endpoint_prefix sm))
                           (handlers_to_call em1 event_name)) \<le> 1)
           \<and> (Some (''retry-config-'' @ endpoint_prefix sm) \<in> set (map reg_unique_id em)
                \<longrightarrow> em1 = em)
           \<and> (\<forall>original_config.
                 loader_load_data env ''aws/_retry'' = Inr original_config
                 \<and> \<not> truthy original_config
                 \<longrightarrow> em1 = em)
           \<and> (\<forall>original_config retry definitions retry_config h.
                 0 < n
                 \<and> loader_load_data env ''aws/_retry'' = Inr original_config
                 \<and> truthy original_config
                 \<and> py_get original_config ''retry'' (JDict []) = Inr retry
                 \<and> py_get original_config ''definitions'' (JDict []) = Inr definitions
                 \<and> build_retry_config env (endpoint_prefix sm) retry definitions
                     = Inr retry_config
                 \<and> create_retry_handler env retry_config (endpoint_prefix sm) = Inr h
                 \<and> Some (''retry-config-'' @ endpoint_prefix sm) \<notin> set (map reg_unique_id em)
                 \<longrightarrow> em1 = em @ [\<lparr>reg_pattern = ''needs-retry.'' @ endpoint_prefix sm,
                                   reg_unique_id = Some (''retry-config-'' @ endpoint_prefix sm),
                                   reg_handler = h\<rparr>]
                     \<and> (\<forall>operation_name.
                           map reg_handler
                             (filter (\<lambda>r. reg_unique_id r
                                            = Some (''retry-config-'' @ endpoint_prefix sm))
                                (handlers_to_call em1
                                   (''needs-retry.'' @ endpoint_prefix sm @ ''.''
                                      @ operation_name))) = [h]))"
proof -
  let ?a = "event_emitter creator"
  let ?p = "''needs-retry.'' @ endpoint_prefix sm"
  let ?u = "''retry-config-'' @ endpoint_prefix sm"
  let ?P = "\<lambda>r. reg_unique_id r = Some ?u"
  let ?w = "load_times n env creator name w"
  from loads_emitter [OF assms(1) assms(2), of n]
  obtain em1 where em1: "emitter_at ?w ?a = Some em1"
    and shape: "em1 = em \<or> (\<exists>h. em1 = register em ?p h (Some ?u))"
    by (auto simp: load_times_def)
  from shape assms(3) have d: "distinct_ids em1"
    by (auto simp: distinct_ids_register)
  have once: "length (filter ?P em1) \<le> 1"
    by (rule distinct_ids_count [OF d])
  have fires: "length (filter ?P (handlers_to_call em1 event_name)) \<le> 1" for event_name
    using handlers_to_call_count [of ?P em1 event_name] once by simp
  have taken: "em1 = em" if "Some ?u \<in> set (map reg_unique_id em)"
    using shape that by (auto simp: register_def)
  have nodata: "em1 = em"
    if oc: "loader_load_data env ''aws/_retry'' = Inr oc" "\<not> truthy oc" for oc
  proof -
    have "((\<lambda>w. snd (load_service_model env w creator name)) ^^ k) w = w" for k
      by (induction k) (simp_all add: load_service_model_no_retry_data [OF oc])
    then have "?w = w"
      by (simp add: load_times_def)
    with em1 assms(2) show ?thesis by simp
  qed
  have exact: "em1 = em @ [\<lparr>reg_pattern = ?p, reg_unique_id = Some ?u, reg_handler = h\<rparr>]
                 \<and> (\<forall>operation_name.
                      map reg_handler
                        (filter ?P (handlers_to_call em1 (?p @ ''.'' @ operation_name))) = [h])"
    if n: "0 < n" and oc: "loader_load_data env ''aws/_retry'' = Inr oc" "truthy oc"
      and cfg: "py_get oc ''retry'' (JDict []) = Inr retry"
        "py_get oc ''definitions'' (JDict []) = Inr definitions"
        "build_retry_config env (endpoint_prefix sm) retry definitions = Inr retry_config"
        "create_retry_handler env retry_config (endpoint_prefix sm) = Inr h"
      and free: "Some ?u \<notin> set (map reg_unique_id em)"
    for oc retry definitions retry_config h
  proof -
    have h: "\<forall>w em. emitter_at w ?a = Some em \<longrightarrow>
        emitter_at (snd (load_service_model env w creator name)) ?a
          = Some (register em ?p h (Some ?u))"
      using load_service_model_registers [OF assms(1) oc cfg] by blast
    from n obtain m where m: "n = Suc m" by (cases n) auto
    let ?r = "\<lparr>reg_pattern = ?p, reg_unique_id = Some ?u, reg_handler = h\<rparr>"
    from loads_registered [OF assms(1) h assms(2), of m] em1 m
    have "em1 = register em ?p h (Some ?u)"
      by (simp add: load_times_def)
    with free have e: "em1 = em @ [?r]"
      by (simp add: register_def)
    have "map reg_handler (filter ?P (handlers_to_call em1 (?p @ ''.'' @ operation_name))) = [h]"
      for operation_name
    proof -
      have "prefix (segments (reg_pattern ?r)) (segments (?p @ ''.'' @ operation_name))"
        using segments_append_dot [of ?p operation_name] by simp
      then have "?r \<in> set (handlers_to_call em1 (?p @ ''.'' @ operation_name))"
        using e by (intro handlers_to_call_member) simp_all
      then have "?r \<in> set (filter ?P (handlers_to_call em1 (?p @ ''.'' @ operation_name)))"
        by simp
      from short_list_member [OF fires this] show ?thesis by simp
    qed
    with e show ?thesis by (intro conjI allI)
  qed
  have c3: "\<forall>event_name. length (filter ?P (handlers_to_call em1 event_name)) \<le> 1"
    using fires by blast
  have c4: "Some ?u \<in> set (map reg_unique_id em) \<longrightarrow> em1 = em"
    using taken by blast
  have c5: "\<forall>original_config.
              loader_load_data env ''aws/_retry'' = Inr original_config
              \<and> \<not> truthy original_config
              \<longrightarrow> em1 = em"
    using nodata by blast
  have c6: "\<forall>original_config retry definitions retry_config h.
              0 < n
              \<and> loader_load_data env ''aws/_retry'' = Inr original_config
              \<and> truthy original_config
              \<and> py_get original_config ''retry'' (JDict []) = Inr retry
              \<and> py_get original_config ''definitions'' (JDict []) = Inr definitions
              \<and> build_retry_config env (endpoint_prefix sm) retry definitions
                  = Inr retry_config
              \<and> create_retry_handler env retry_config (endpoint_prefix sm) = Inr h
              \<and> Some ?u \<notin> set (map reg_unique_id em)
              \<longrightarrow> em1 = em @ [\<lparr>reg_pattern = ?p, reg_unique_id = Some ?u, reg_handler = h\<rparr>]
                  \<and> (\<forall>operation_name.
                        map reg_handler
                          (filter ?P
                             (handlers_to_call em1
                                (''needs-retry.'' @ endpoint_prefix sm @ ''.''
                                   @ operation_name))) = [h])"
  proof (intro allI impI)
    fix oc retry definitions retry_config h
    assume a: "0 < n
                 \<and> loader_load_data env ''aws/_retry'' = Inr oc
                 \<and> truthy oc
                 \<and> py_get oc ''retry'' (JDict []) = Inr retry
                 \<and> py_get oc ''definitions'' (JDict []) = Inr definitions
                 \<and> build_retry_config env (endpoint_prefix sm) retry definitions
                     = Inr retry_config
                 \<and> create_retry_handler env retry_config (endpoint_prefix sm) = Inr h
                 \<and> Some ?u \<notin> set (map reg_unique_id em)"
    from a have a1: "0 < n"
      and a2: "loader_load_data env ''aws/_retry'' = Inr oc"
      and a3: "truthy oc"
      and a4: "py_get oc ''retry'' (JDict []) = Inr retry"
      and a5: "py_get oc ''definitions'' (JDict []) = Inr definitions"
      and a6: "build_retry_config env (endpoint_prefix sm) retry definitions = Inr retry_config"
      and a7: "create_retry_handler env retry_config (endpoint_prefix sm) = Inr h"
      and a8: "Some ?u \<notin> set (map reg_unique_id em)"
      by blast+
    have x: "em1 = em @ [\<lparr>reg_pattern = ?p, reg_unique_id = Some ?u, reg_handler = h\<rparr>]
                 \<and> (\<forall>operation_name.
                      map reg_handler
                        (filter ?P (handlers_to_call em1 (?p @ ''.'' @ operation_name))) = [h])"
      by (rule exact [OF a1 a2 a3 a4 a5 a6 a7 a8])
    have s: "?p @ ''.'' @ operation_name
               = ''needs-retry.'' @ endpoint_prefix sm @ ''.'' @ operation_name"
      for operation_name
      by simp
    from x show "em1 = em @ [\<lparr>reg_pattern = ?p, reg_unique_id = Some ?u, reg_handler = h\<rparr>]
                   \<and> (\<forall>operation_name.
                         map reg_handler
                           (filter ?P
                              (handlers_to_call em1
                                 (''needs-retry.'' @ endpoint_prefix sm @ ''.''
                                    @ operation_name))) = [h])"
      unfolding s .
  qed
  show ?thesis
    by (rule exI [of _ em1]) (intro conjI em1 once c3 c4 c5 c6)
qed

theorem retry_handler_registered_once_witness:
  "loader_load_service_model example_env (''aws/'' @ ''s3'') = Inr s3_model
   \<and> emitter_at example_world (event_emitter example_creator) = Some []
   \<and> distinct_ids []
   \<and> emitter_at (load_times 2 example_env example_creator ''s3'' example_world)
       (event_emitter example_creator)
     = Some [\<lparr>reg_pattern = ''needs-retry.s3'', reg_unique_id = Some ''retry-config-s3'',
               reg_handler = RetryHandler example_retry_config ''s3''\<rparr>]
   \<and> (\<forall>event_name.
         length (filter (\<lambda>r. reg_unique_id r = Some ''retry-config-s3'')
                   (handlers_to_call
                      [\<lparr>reg_pattern = ''needs-retry.s3'', reg_unique_id = Some ''retry-config-s3'',
                        reg_handler = RetryHandler example_retry_config ''s3''\<rparr>]
                      event_name)) \<le> 1)
   \<and> (\<forall>operation_name.
         map reg_handler
           (filter (\<lambda>r. reg_unique_id r = Some ''retry-config-s3'')
              (handlers_to_call
                 [\<lparr>reg_pattern = ''needs-retry.s3'', reg_unique_id = Some ''retry-config-s3'',
                   reg_handler = RetryHandler example_retry_config ''s3''\<rparr>]
                 (''needs-retry.s3.'' @ operation_name)))
         = [RetryHandler example_retry_config ''s3''])"
proof -
  let ?oc = "JDict [(''retry'', JDict [(''__default__'', JDict [])]), (''definitions'', JDict [])]"
  let ?r = "\<lparr>reg_pattern = ''needs-retry.s3'', reg_unique_id = Some ''retry-config-s3'',
             reg_handler = RetryHandler example_retry_config ''s3''\<rparr>"
  have l: "loader_load_service_model example_env (''aws/'' @ ''s3'') = Inr s3_model"
    by (simp add: example_env_def)
  have e: "emitter_at example_world (event_emitter example_creator) = Some []"
    by (simp add: example_world_def example_creator_def emitter_at_def)
  have d: "distinct_ids []"
    by (simp add: distinct_ids_def)
  have p: "endpoint_prefix s3_model = ''s3''"
    by (simp add: s3_model_def)
  have oc: "loader_load_data example_env ''aws/_retry'' = Inr ?oc" "truthy ?oc"
    by (simp_all add: example_env_def)
  have cfg: "py_get ?oc ''retry'' (JDict []) = Inr (JDict [(''__default__'', JDict [])])"
    "py_get ?oc ''definitions'' (JDict []) = Inr (JDict [])"
    "build_retry_config example_env (endpoint_prefix s3_model)
       (JDict [(''__default__'', JDict [])]) (JDict []) = Inr example_retry_config"
    "create_retry_handler example_env example_retry_config (endpoint_prefix s3_model)
       = Inr (RetryHandler example_retry_config ''s3'')"
    by (simp_all add: example_env_def example_retry_config_def p)
  have "\<exists>em1. emitter_at (load_times 2 example_env example_creator ''s3'' example_world)
                 (event_emitter example_creator) = Some em1
     \<and> (\<forall>event_name.
          length (filter (\<lambda>r. reg_unique_id r
                               = Some (''retry-config-'' @ endpoint_prefix s3_model))
                    (handlers_to_call em1 event_name)) \<le> 1)
     \<and> (\<forall>original_config retry definitions retry_config h.
          0 < (2::nat)
          \<and> loader_load_data example_env ''aws/_retry'' = Inr original_config
          \<and> truthy original_config
          \<and> py_get original_config ''retry'' (JDict []) = Inr retry
          \<and> py_get original_config ''definitions'' (JDict []) = Inr definitions
          \<and> build_retry_config example_env (endpoint_prefix s3_model) retry definitions
              = Inr retry_config
          \<and> create_retry_handler example_env retry_config (endpoint_prefix s3_model) = Inr h
          \<and> Some (''retry-config-'' @ endpoint_prefix s3_model) \<notin> set (map reg_unique_id ([]::emitter))
          \<longrightarrow> em1 = [] @ [\<lparr>reg_pattern = ''needs-retry.'' @ endpoint_prefix s3_model,
                            reg_unique_id = Some (''retry-config-'' @ endpoint_prefix s3_model),
                            reg_handler = h\<rparr>]
              \<and> (\<forall>operation_name.
                    map reg_handler
                      (filter (\<lambda>r. reg_unique_id r
                                     = Some (''retry-config-'' @ endpoint_prefix s3_model))
                         (handlers_to_call em1
                            (''needs-retry.'' @ endpoint_prefix s3_model @ ''.''
                               @ operation_name))) = [h]))"
    using retry_handler_registered_once [OF l e d, of 2]
    by (elim exE conjE) (intro exI conjI, assumption+)
  then obtain em1 where
    a: "emitter_at (load_times 2 example_env example_creator ''s3'' example_world)
          (event_emitter example_creator) = Some em1" and
    f: "\<forall>event_name.
          length (filter (\<lambda>r. reg_unique_id r
                               = Some (''retry-config-'' @ endpoint_prefix s3_model))
                    (handlers_to_call em1 event_name)) \<le> 1" and
    x: "\<forall>original_config retry definitions retry_config h.
          0 < (2::nat)
          \<and> loader_load_data example_env ''aws/_retry'' = Inr original_config
          \<and> truthy original_config
          \<and> py_get original_config ''retry'' (JDict []) = Inr retry
          \<and> py_get original_config ''definitions'' (JDict []) = Inr definitions
          \<and> build_retry_config example_env (endpoint_prefix s3_model) retry definitions
              = Inr retry_config
          \<and> create_retry_handler example_env retry_config (endpoint_prefix s3_model) = Inr h
          \<and> Some (''retry-config-'' @ endpoint_prefix s3_model) \<notin> set (map reg_unique_id ([]::emitter))
          \<longrightarrow> em1 = [] @ [\<lparr>reg_pattern = ''needs-retry.'' @ endpoint_prefix s3_model,
                            reg_unique_id = Some (''retry-config-'' @ endpoint_prefix s3_model),
                            reg_handler = h\<rparr>]
              \<and> (\<forall>operation_name.
                    map reg_handler
                      (filter (\<lambda>r. reg_unique_id r
                                     = Some (''retry-config-'' @ endpoint_prefix s3_model))
                         (handlers_to_call em1
                            (''needs-retry.'' @ endpoint_prefix s3_model @ ''.''
                               @ operation_name))) = [h])"
    by blast
  have prem: "0 < (2::nat)
          \<and> loader_load_data example_env ''aws/_retry'' = Inr ?oc
          \<and> truthy ?oc
          \<and> py_get ?oc ''retry'' (JDict []) = Inr (JDict [(''__default__'', JDict [])])
          \<and> py_get ?oc ''definitions'' (JDict []) = Inr (JDict [])
          \<and> build_retry_config example_env (endpoint_prefix s3_model)
                (JDict [(''__default__'', JDict [])]) (JDict []) = Inr example_retry_config
          \<and> create_retry_handler example_env example_retry_config (endpoint_prefix s3_model)
              = Inr (RetryHandler example_retry_config ''s3'')
          \<and> Some (''retry-config-'' @ endpoint_prefix s3_model)
                \<notin> set (map reg_unique_id ([]::emitter))"
    using oc cfg by simp
  note y = x [rule_format, OF prem]
  from y have em1: "em1 = [?r]"
    by (simp add: p)
  from y em1 have z: "\<forall>operation_name.
         map reg_handler
           (filter (\<lambda>r. reg_unique_id r = Some ''retry-config-s3'')
              (handlers_to_call [?r] (''needs-retry.s3.'' @ operation_name)))
         = [RetryHandler example_retry_config ''s3'']"
    by (simp add: p)
  from f em1 have g: "\<forall>event_name.
         length (filter (\<lambda>r. reg_unique_id r = Some ''retry-config-s3'')
                   (handlers_to_call [?r] event_name)) \<le> 1"
    by (simp add: p)
  from a em1 l e d g z show ?thesis
    by simp
qed

section \<open>Properties of cloning a client\<close>





section \<open>Properties of the synthesized operation method\<close>



text \<open>The calls of \<open>_api_call\<close> follow the lifecycle, and stop where a step raises.\<close>

lemma api_call_labels:
  "prefix (map step_label (snd (api_call env w sm operation_name self kwargs)))
     (lifecycle sm operation_name)"
  by (simp add: api_call_def lifecycle_def Let_def
        split: sum.splits option.splits prod.splits)

lemma api_call_complete:
  "StatusCheck http parsed \<in> set (snd (api_call env w sm operation_name self kwargs))
     \<Longrightarrow> map step_label (snd (api_call env w sm operation_name self kwargs))
           = lifecycle sm operation_name"
  by (auto simp: api_call_def lifecycle_def Let_def
        split: sum.splits option.splits prod.splits if_splits)

lemma api_call_returns_checked:
  "fst (api_call env w sm operation_name self kwargs) = Inr r
     \<Longrightarrow> \<exists>http. StatusCheck http r \<in> set (snd (api_call env w sm operation_name self kwargs))"
  by (auto simp: api_call_def Let_def
        split: sum.splits option.splits prod.splits if_splits)

text \<open>
  C2. On a client with an emitter, the calls that an operation call makes are, in this
  order and with these arguments: the event
  \<open>before-parameter-build.<endpointPrefix>.<OperationName>\<close> with the caller's parameter
  mapping and the operation model; the serialization of the parameters as the handlers
  of that event leave them; the event \<open>before-call.<endpointPrefix>.<OperationName>\<close> with
  the serialized request dict and the request signer; the request over the endpoint,
  with the request dict as the handlers of that event leave it; the event
  \<open>after-call.<endpointPrefix>.<OperationName>\<close> with the http response and the parsed
  response that the endpoint returned; the status-code test on the response as the
  handlers of that event leave it. A step that raises ends the call with its exception,
  after exactly the calls up to that step; no call is made out of this order.
\<close>

theorem api_call_lifecycle_order:
  assumes "operation_model env sm operation_name = Inr model"
    and "events (meta self) = Some a" and "emitter_at w a = Some em"
  shows "prefix (map step_label (snd (api_call env w sm operation_name self kwargs)))
           (lifecycle sm operation_name)
   \<and> (\<forall>r. fst (api_call env w sm operation_name self kwargs) = Inr r
         \<longrightarrow> map step_label (snd (api_call env w sm operation_name self kwargs))
               = lifecycle sm operation_name)
   \<and> (\<forall>e. emit (\<lambda>h. on_before_parameter_build env h
                        (event_name_for ''before-parameter-build'' sm operation_name) model)
             em (event_name_for ''before-parameter-build'' sm operation_name) kwargs = Inl e
         \<longrightarrow> api_call env w sm operation_name self kwargs
             = (Inl e,
                [Emit (event_name_for ''before-parameter-build'' sm operation_name)
                   (Params kwargs model)]))
   \<and> (\<forall>kwargs1.
         emit (\<lambda>h. on_before_parameter_build env h
                     (event_name_for ''before-parameter-build'' sm operation_name) model)
           em (event_name_for ''before-parameter-build'' sm operation_name) kwargs = Inr kwargs1
         \<longrightarrow>
         (\<forall>e. serialize_to_request env (serializer self) kwargs1 model = Inl e
            \<longrightarrow> api_call env w sm operation_name self kwargs
                = (Inl e,
                   [Emit (event_name_for ''before-parameter-build'' sm operation_name)
                      (Params kwargs model),
                    Serialize kwargs1 model]))
       \<and> (\<forall>request_dict.
             serialize_to_request env (serializer self) kwargs1 model = Inr request_dict
             \<longrightarrow>
             (\<forall>e. emit (\<lambda>h. on_before_call env h
                              (event_name_for ''before-call'' sm operation_name) model
                              (request_signer self))
                     em (event_name_for ''before-call'' sm operation_name) request_dict = Inl e
                \<longrightarrow> api_call env w sm operation_name self kwargs
                    = (Inl e,
                       [Emit (event_name_for ''before-parameter-build'' sm operation_name)
                          (Params kwargs model),
                        Serialize kwargs1 model,
                        Emit (event_name_for ''before-call'' sm operation_name)
                          (Request model request_dict (request_signer self))]))
           \<and> (\<forall>request_dict1.
                 emit (\<lambda>h. on_before_call env h
                             (event_name_for ''before-call'' sm operation_name) model
                             (request_signer self))
                   em (event_name_for ''before-call'' sm operation_name) request_dict
                   = Inr request_dict1
                 \<longrightarrow>
                 (\<forall>e. make_request env (endpoint self) model request_dict1 = Inl e
                    \<longrightarrow> api_call env w sm operation_name self kwargs
                        = (Inl e,
                           [Emit (event_name_for ''before-parameter-build'' sm operation_name)
                              (Params kwargs model),
                            Serialize kwargs1 model,
                            Emit (event_name_for ''before-call'' sm operation_name)
                              (Request model request_dict (request_signer self)),
                            MakeRequest model request_dict1]))
               \<and> (\<forall>http parsed_response.
                     make_request env (endpoint self) model request_dict1
                       = Inr (http, parsed_response)
                     \<longrightarrow>
                     (\<forall>e. emit (\<lambda>h. on_after_call env h
                                      (event_name_for ''after-call'' sm operation_name) model)
                             em (event_name_for ''after-call'' sm operation_name)
                             (http, parsed_response) = Inl e
                        \<longrightarrow> api_call env w sm operation_name self kwargs
                            = (Inl e,
                               [Emit (event_name_for ''before-parameter-build'' sm
                                        operation_name) (Params kwargs model),
                                Serialize kwargs1 model,
                                Emit (event_name_for ''before-call'' sm operation_name)
                                  (Request model request_dict (request_signer self)),
                                MakeRequest model request_dict1,
                                Emit (event_name_for ''after-call'' sm operation_name)
                                  (Response http parsed_response model)]))
                   \<and> (\<forall>http1 parsed_response1.
                         emit (\<lambda>h. on_after_call env h
                                     (event_name_for ''after-call'' sm operation_name) model)
                           em (event_name_for ''after-call'' sm operation_name)
                           (http, parsed_response) = Inr (http1, parsed_response1)
                         \<longrightarrow> snd (api_call env w sm operation_name self kwargs)
                               = [Emit (event_name_for ''before-parameter-build'' sm
                                          operation_name) (Params kwargs model),
                                  Serialize kwargs1 model,
                                  Emit (event_name_for ''before-call'' sm operation_name)
                                    (Request model request_dict (request_signer self)),
                                  MakeRequest model request_dict1,
                                  Emit (event_name_for ''after-call'' sm operation_name)
                                    (Response http parsed_response model),
                                  StatusCheck http1 parsed_response1]
                             \<and> fst (api_call env w sm operation_name self kwargs)
                               = (if 300 \<le> status_code http1
                                  then (case new_client_error env parsed_response1
                                               operation_name of
                                          Inl e \<Rightarrow> Inl e
                                        | Inr client_error \<Rightarrow> Inl client_error)
                                  else Inr parsed_response1))))))"
proof -
  have labels: "prefix (map step_label (snd (api_call env w sm operation_name self kwargs)))
          (lifecycle sm operation_name)"
    by (rule api_call_labels)
  have complete: "\<forall>r. fst (api_call env w sm operation_name self kwargs) = Inr r
         \<longrightarrow> map step_label (snd (api_call env w sm operation_name self kwargs))
               = lifecycle sm operation_name"
  proof (intro allI impI)
    fix r
    assume "fst (api_call env w sm operation_name self kwargs) = Inr r"
    from api_call_returns_checked [OF this] obtain http where
      "StatusCheck http r \<in> set (snd (api_call env w sm operation_name self kwargs))"
      by blast
    then show "map step_label (snd (api_call env w sm operation_name self kwargs))
                 = lifecycle sm operation_name"
      by (rule api_call_complete)
  qed
  have steps: "(\<forall>e. emit (\<lambda>h. on_before_parameter_build env h
                        (event_name_for ''before-parameter-build'' sm operation_name) model)
             em (event_name_for ''before-parameter-build'' sm operation_name) kwargs = Inl e
         \<longrightarrow> api_call env w sm operation_name self kwargs
             = (Inl e,
                [Emit (event_name_for ''before-parameter-build'' sm operation_name)
                   (Params kwargs model)]))
   \<and> (\<forall>kwargs1.
         emit (\<lambda>h. on_before_parameter_build env h
                     (event_name_for ''before-parameter-build'' sm operation_name) model)
           em (event_name_for ''before-parameter-build'' sm operation_name) kwargs = Inr kwargs1
         \<longrightarrow>
         (\<forall>e. serialize_to_request env (serializer self) kwargs1 model = Inl e
            \<longrightarrow> api_call env w sm operation_name self kwargs
                = (Inl e,
                   [Emit (event_name_for ''before-parameter-build'' sm operation_name)
                      (Params kwargs model),
                    Serialize kwargs1 model]))
       \<and> (\<forall>request_dict.
             serialize_to_request env (serializer self) kwargs1 model = Inr request_dict
             \<longrightarrow>
             (\<forall>e. emit (\<lambda>h. on_before_call env h
                              (event_name_for ''before-call'' sm operation_name) model
                              (request_signer self))
                     em (event_name_for ''before-call'' sm operation_name) request_dict = Inl e
                \<longrightarrow> api_call env w sm operation_name self kwargs
                    = (Inl e,
                       [Emit (event_name_for ''before-parameter-build'' sm operation_name)
                          (Params kwargs model),
                        Serialize kwargs1 model,
                        Emit (event_name_for ''before-call'' sm operation_name)
                          (Request model request_dict (request_signer self))]))
           \<and> (\<forall>request_dict1.
                 emit (\<lambda>h. on_before_call env h
                             (event_name_for ''before-call'' sm operation_name) model
                             (request_signer self))
                   em (event_name_for ''before-call'' sm operation_name) request_dict
                   = Inr request_dict1
                 \<longrightarrow>
                 (\<forall>e. make_request env (endpoint self) model request_dict1 = Inl e
                    \<longrightarrow> api_call env w sm operation_name self kwargs
                        = (Inl e,
                           [Emit (event_name_for ''before-parameter-build'' sm operation_name)
                              (Params kwargs model),
                            Serialize kwargs1 model,
                            Emit (event_name_for ''before-call'' sm operation_name)
                              (Request model request_dict (request_signer self)),
                            MakeRequest model request_dict1]))
               \<and> (\<forall>http parsed_response.
                     make_request env (endpoint self) model request_dict1
                       = Inr (http, parsed_response)
                     \<longrightarrow>
                     (\<forall>e. emit (\<lambda>h. on_after_call env h
                                      (event_name_for ''after-call'' sm operation_name) model)
                             em (event_name_for ''after-call'' sm operation_name)
                             (http, parsed_response) = Inl e
                        \<longrightarrow> api_call env w sm operation_name self kwargs
                            = (Inl e,
                               [Emit (event_name_for ''before-parameter-build'' sm
                                        operation_name) (Params kwargs model),
                                Serialize kwargs1 model,
                                Emit (event_name_for ''before-call'' sm operation_name)
                                  (Request model request_dict (request_signer self)),
                                MakeRequest model request_dict1,
                                Emit (event_name_for ''after-call'' sm operation_name)
                                  (Response http parsed_response model)]))
                   \<and> (\<forall>http1 parsed_response1.
                         emit (\<lambda>h. on_after_call env h
                                     (event_name_for ''after-call'' sm operation_name) model)
                           em (event_name_for ''after-call'' sm operation_name)
                           (http, parsed_response) = Inr (http1, parsed_response1)
                         \<longrightarrow> snd (api_call env w sm operation_name self kwargs)
                               = [Emit (event_name_for ''before-parameter-build'' sm
                                          operation_name) (Params kwargs model),
                                  Serialize kwargs1 model,
                                  Emit (event_name_for ''before-call'' sm operation_name)
                                    (Request model request_dict (request_signer self)),
                                  MakeRequest model request_dict1,
                                  Emit (event_name_for ''after-call'' sm operation_name)
                                    (Response http parsed_response model),
                                  StatusCheck http1 parsed_response1]
                             \<and> fst (api_call env w sm operation_name self kwargs)
                               = (if 300 \<le> status_code http1
                                  then (case new_client_error env parsed_response1
                                               operation_name of
                                          Inl e \<Rightarrow> Inl e
                                        | Inr client_error \<Rightarrow> Inl client_error)
                                  else Inr parsed_response1))))))"
    using assms
    by (simp add: api_call_def Let_def split: sum.splits)
  show ?thesis
    by (rule conjI [OF labels conjI [OF complete steps]])
qed

theorem api_call_lifecycle_order_witness:
  "operation_model example_env s3_model ''ListObjects'' = Inr (OperationModel ''s3'' ''ListObjects'')
   \<and> events (meta example_client) = Some 0
   \<and> emitter_at hooked_world 0
     = Some [\<lparr>reg_pattern = ''before-parameter-build.s3'', reg_unique_id = None,
               reg_handler = Callable 8\<rparr>]
   \<and> snd (api_call example_env hooked_world s3_model ''ListObjects'' example_client
             (JDict [(''Bucket'', JStr ''b'')]))
     = [Emit ''before-parameter-build.s3.ListObjects''
          (Params (JDict [(''Bucket'', JStr ''b'')]) (OperationModel ''s3'' ''ListObjects'')),
        Serialize (JDict [(''Bucket'', JStr ''b''), (''MaxKeys'', JInt 1000)])
          (OperationModel ''s3'' ''ListObjects''),
        Emit ''before-call.s3.ListObjects''
          (Request (OperationModel ''s3'' ''ListObjects'')
             (JDict [(''body'', JDict [(''Bucket'', JStr ''b''), (''MaxKeys'', JInt 1000)])]) 4),
        MakeRequest (OperationModel ''s3'' ''ListObjects'')
          (JDict [(''body'', JDict [(''Bucket'', JStr ''b''), (''MaxKeys'', JInt 1000)])]),
        Emit ''after-call.s3.ListObjects''
          (Response \<lparr>status_code = 200, content = ''''\<rparr> (JDict [(''Contents'', JList [])])
             (OperationModel ''s3'' ''ListObjects'')),
        StatusCheck \<lparr>status_code = 200, content = ''''\<rparr> (JDict [(''Contents'', JList [])])]
   \<and> fst (api_call example_env hooked_world s3_model ''ListObjects'' example_client
             (JDict [(''Bucket'', JStr ''b'')]))
     = Inr (JDict [(''Contents'', JList [])])"
proof -
  let ?model = "OperationModel ''s3'' ''ListObjects''"
  let ?em = "[\<lparr>reg_pattern = ''before-parameter-build.s3'', reg_unique_id = None,
               reg_handler = Callable 8\<rparr>]"
  let ?kwargs = "JDict [(''Bucket'', JStr ''b'')]"
  let ?kwargs1 = "JDict [(''Bucket'', JStr ''b''), (''MaxKeys'', JInt 1000)]"
  let ?request = "JDict [(''body'', ?kwargs1)]"
  let ?http = "\<lparr>status_code = 200, content = ''''\<rparr>"
  let ?parsed = "JDict [(''Contents'', JList [])]"
  have n: "event_name_for ''before-parameter-build'' s3_model ''ListObjects''
             = ''before-parameter-build.s3.ListObjects''"
    "event_name_for ''before-call'' s3_model ''ListObjects'' = ''before-call.s3.ListObjects''"
    "event_name_for ''after-call'' s3_model ''ListObjects'' = ''after-call.s3.ListObjects''"
    by (simp_all add: event_name_for_def s3_model_def)
  have h1: "handlers_to_call ?em ''before-parameter-build.s3.ListObjects'' = ?em"
    by (simp add: handlers_to_call_def)
  have h3: "handlers_to_call ?em ''before-call.s3.ListObjects'' = []"
    by (simp add: handlers_to_call_def)
  have h5: "handlers_to_call ?em ''after-call.s3.ListObjects'' = []"
    by (simp add: handlers_to_call_def)
  have m: "operation_model example_env s3_model ''ListObjects'' = Inr ?model"
    by (simp add: example_env_def s3_model_def)
  have e: "events (meta example_client) = Some 0"
    by (simp add: example_client_def)
  have a: "emitter_at hooked_world 0 = Some ?em"
    by (simp add: emitter_at_def hooked_world_def)
  have e1: "emit (\<lambda>h. on_before_parameter_build example_env h
                        (event_name_for ''before-parameter-build'' s3_model ''ListObjects'')
                        ?model)
              ?em (event_name_for ''before-parameter-build'' s3_model ''ListObjects'') ?kwargs
            = Inr ?kwargs1"
    unfolding n emit_def h1 by (simp add: example_env_def)
  have s: "serialize_to_request example_env (serializer example_client) ?kwargs1 ?model
             = Inr ?request"
    by (simp add: example_env_def)
  have e3: "emit (\<lambda>h. on_before_call example_env h
                        (event_name_for ''before-call'' s3_model ''ListObjects'') ?model
                        (request_signer example_client))
              ?em (event_name_for ''before-call'' s3_model ''ListObjects'') ?request
            = Inr ?request"
    unfolding n emit_def h3 by simp
  have t: "make_request example_env (endpoint example_client) ?model ?request
             = Inr (?http, ?parsed)"
    by (simp add: example_env_def)
  have e5: "emit (\<lambda>h. on_after_call example_env h
                        (event_name_for ''after-call'' s3_model ''ListObjects'') ?model)
              ?em (event_name_for ''after-call'' s3_model ''ListObjects'') (?http, ?parsed)
            = Inr (?http, ?parsed)"
    unfolding n emit_def h5 by simp
  note steps = api_call_lifecycle_order [OF m e a, of "?kwargs",
                 THEN conjunct2, THEN conjunct2, THEN conjunct2, rule_format, OF e1,
                 THEN conjunct2, rule_format, OF s,
                 THEN conjunct2, rule_format, OF e3,
                 THEN conjunct2, rule_format, OF t,
                 THEN conjunct2, rule_format, OF e5]
  have g: "request_signer example_client = 4"
    by (simp add: example_client_def)
  from steps m e a show ?thesis
    unfolding n g by simp
qed

section \<open>Properties of pagination and waiters\<close>

text \<open>
  C3. For an operation name of the client (a name of its name mapping) and a page
  configuration that is loaded lazily (the cached one, or the one of the paginators file,
  or the empty mapping when there is no such file), \<open>can_paginate\<close> returns true exactly
  when the page configuration has an entry for the operation, and leaves the page
  configuration in the cache of the client. \<open>get_paginator\<close> raises
  \<open>OperationNotPageableError\<close> exactly when \<open>can_paginate\<close> is false, and otherwise returns
  what the constructor of \<open>Paginator\<close> returns for the method of that name and the entry
  of the operation in the page configuration.
\<close>

theorem can_paginate_iff_page_config_entry:
  assumes "create_name_mapping env sm operation_name = Some actual_operation_name"
    and "lazy_page_config env sm self = Inr (JDict page_config)"
  shows "can_paginate env sm (create_name_mapping env sm) self operation_name
           = (Inr (actual_operation_name \<in> fst ` set page_config),
              self\<lparr>cache := (cache self)(''page_config'' \<mapsto> JDict page_config)\<rparr>)
       \<and> (cache self ''page_config'' = None
            \<and> (\<exists>x. loader_load_data env
                       (''aws/'' @ service_name sm @ ''/'' @ api_version sm @ ''.paginators'')
                     = Inl (DataNotFoundError x))
            \<longrightarrow> page_config = [])
       \<and> get_paginator env sm (create_name_mapping env sm) self operation_name
           = ((case map_of page_config actual_operation_name of
                 None \<Rightarrow> Inl (OperationNotPageableError operation_name)
               | Some entry \<Rightarrow>
                   new_paginator env (BoundMethod (client_id self) operation_name) entry),
              self\<lparr>cache := (cache self)(''page_config'' \<mapsto> JDict page_config)\<rparr>)
       \<and> (fst (can_paginate env sm (create_name_mapping env sm) self operation_name) = Inr False
            \<longrightarrow> fst (get_paginator env sm (create_name_mapping env sm) self operation_name)
                  = Inl (OperationNotPageableError operation_name))
       \<and> (fst (can_paginate env sm (create_name_mapping env sm) self operation_name) = Inr True
            \<longrightarrow> (\<exists>entry. map_of page_config actual_operation_name = Some entry
                  \<and> fst (get_paginator env sm (create_name_mapping env sm) self operation_name)
                      = new_paginator env (BoundMethod (client_id self) operation_name) entry))"
proof -
  let ?self1 = "self\<lparr>cache := (cache self)(''page_config'' \<mapsto> JDict page_config)\<rparr>"
  have same: "?self1 = self" if "cache self ''page_config'' = Some (JDict page_config)"
    using that by (simp add: fun_upd_idem)
  have cp: "can_paginate env sm (create_name_mapping env sm) self operation_name
              = (Inr (actual_operation_name \<in> fst ` set page_config), ?self1)"
  proof (cases "cache self ''page_config''")
    case None
    with assms show ?thesis
      by (auto simp: can_paginate_def lazy_page_config_def domIff
            split: sum.splits exn.splits)
  next
    case (Some pc)
    with assms(2) have pc: "pc = JDict page_config"
      by (simp add: lazy_page_config_def)
    with Some assms(1) same show ?thesis
      by (simp add: can_paginate_def domIff)
  qed
  have empty: "page_config = []"
    if "cache self ''page_config'' = None"
      and "loader_load_data env
             (''aws/'' @ service_name sm @ ''/'' @ api_version sm @ ''.paginators'')
           = Inl (DataNotFoundError x)" for x
    using that assms(2) by (simp add: lazy_page_config_def)
  have gp: "get_paginator env sm (create_name_mapping env sm) self operation_name
           = ((case map_of page_config actual_operation_name of
                 None \<Rightarrow> Inl (OperationNotPageableError operation_name)
               | Some entry \<Rightarrow>
                   new_paginator env (BoundMethod (client_id self) operation_name) entry),
              ?self1)"
  proof (cases "map_of page_config actual_operation_name")
    case None
    then have "actual_operation_name \<notin> fst ` set page_config"
      by (simp add: map_of_eq_None_iff)
    with None cp show ?thesis
      by (simp add: get_paginator_def)
  next
    case (Some entry)
    then have "actual_operation_name \<in> fst ` set page_config"
      by (metis map_of_eq_None_iff option.distinct(1))
    with Some cp assms(1) show ?thesis
      by (simp add: get_paginator_def)
  qed
  have no: "fst (get_paginator env sm (create_name_mapping env sm) self operation_name)
               = Inl (OperationNotPageableError operation_name)"
    if "fst (can_paginate env sm (create_name_mapping env sm) self operation_name) = Inr False"
  proof -
    from that have "actual_operation_name \<notin> fst ` set page_config"
      unfolding cp by simp
    then have "map_of page_config actual_operation_name = None"
      by (simp add: map_of_eq_None_iff)
    then show ?thesis
      unfolding gp by simp
  qed
  have yes: "\<exists>entry. map_of page_config actual_operation_name = Some entry
                  \<and> fst (get_paginator env sm (create_name_mapping env sm) self operation_name)
                      = new_paginator env (BoundMethod (client_id self) operation_name) entry"
    if "fst (can_paginate env sm (create_name_mapping env sm) self operation_name) = Inr True"
  proof -
    from that have "actual_operation_name \<in> fst ` set page_config"
      unfolding cp by simp
    then obtain entry where e: "map_of page_config actual_operation_name = Some entry"
      by (cases "map_of page_config actual_operation_name")
         (simp_all add: map_of_eq_None_iff)
    then have "fst (get_paginator env sm (create_name_mapping env sm) self operation_name)
                 = new_paginator env (BoundMethod (client_id self) operation_name) entry"
      unfolding gp by simp
    with e show ?thesis by blast
  qed
  from cp empty gp no yes show ?thesis by blast
qed

theorem can_paginate_iff_page_config_entry_witness:
  "create_name_mapping example_env s3_model ''list_objects'' = Some ''ListObjects''
   \<and> lazy_page_config example_env s3_model example_client
     = Inr (JDict [(''ListObjects'', example_page_entry)])
   \<and> fst (can_paginate example_env s3_model (create_name_mapping example_env s3_model)
             example_client ''list_objects'') = Inr True
   \<and> new_paginator example_env (BoundMethod 5 ''list_objects'') example_page_entry
     = Inr (Paginator (BoundMethod 5 ''list_objects'') example_page_entry)
   \<and> fst (get_paginator example_env s3_model (create_name_mapping example_env s3_model)
             example_client ''list_objects'')
     = Inr (Paginator (BoundMethod 5 ''list_objects'') example_page_entry)"
proof -
  have n: "create_name_mapping example_env s3_model ''list_objects'' = Some ''ListObjects''"
    by (simp add: create_name_mapping_def example_env_def s3_model_def)
  have l: "lazy_page_config example_env s3_model example_client
           = Inr (JDict [(''ListObjects'', example_page_entry)])"
    by (simp add: lazy_page_config_def example_env_def s3_model_def example_client_def)
  have i: "client_id example_client = 5"
    by (simp add: example_client_def)
  have p: "new_paginator example_env (BoundMethod 5 ''list_objects'') example_page_entry
             = Inr (Paginator (BoundMethod 5 ''list_objects'') example_page_entry)"
    by (simp add: example_env_def example_page_entry_def and_then_def)
  from can_paginate_iff_page_config_entry [OF n l] n l i p show ?thesis
    by simp
qed

text \<open>The mapping of \<open>get_waiter\<close> knows exactly the normalized waiter names.\<close>

lemma name_fold_absent:
  "waiter_name \<notin> xform_name env ` set names
     \<Longrightarrow> foldl (\<lambda>mapping name. mapping(xform_name env name \<mapsto> name)) m names waiter_name
           = m waiter_name"
  by (induction names arbitrary: m) auto

lemma name_fold_present:
  "waiter_name \<in> xform_name env ` set names
     \<Longrightarrow> \<exists>name \<in> set names. xform_name env name = waiter_name
           \<and> foldl (\<lambda>mapping name. mapping(xform_name env name \<mapsto> name)) m names waiter_name
               = Some name"
proof (induction names arbitrary: m)
  case Nil
  then show ?case by simp
next
  case (Cons n names)
  let ?f = "\<lambda>mapping name. mapping(xform_name env name \<mapsto> name)"
  show ?case
  proof (cases "waiter_name \<in> xform_name env ` set names")
    case True
    from Cons.IH [OF True, of "m(xform_name env n \<mapsto> n)"] obtain name where
      a: "name \<in> set names" and b: "xform_name env name = waiter_name" and
      c: "foldl ?f (m(xform_name env n \<mapsto> n)) names waiter_name = Some name"
      by blast
    from c have d: "foldl ?f m (n # names) waiter_name = Some name"
      by (simp only: foldl_Cons)
    show ?thesis
    proof (rule bexI [of _ name])
      from b d show "xform_name env name = waiter_name
                       \<and> foldl ?f m (n # names) waiter_name = Some name"
        by (rule conjI)
      from a show "name \<in> set (n # names)"
        by simp
    qed
  next
    case False
    with Cons.prems have n: "xform_name env n = waiter_name"
      by auto
    have "foldl ?f (m(xform_name env n \<mapsto> n)) names waiter_name
            = (m(xform_name env n \<mapsto> n)) waiter_name"
      by (rule name_fold_absent [OF False])
    also have "\<dots> = Some n"
      using n by simp
    finally have d: "foldl ?f m (n # names) waiter_name = Some n"
      by (simp only: foldl_Cons)
    show ?thesis
    proof (rule bexI [of _ n])
      from n d show "xform_name env n = waiter_name
                       \<and> foldl ?f m (n # names) waiter_name = Some n"
        by (rule conjI)
      show "n \<in> set (n # names)"
        by simp
    qed
  qed
qed

lemma waiter_name_mapping_None:
  "waiter_name \<notin> xform_name env ` set names
     \<Longrightarrow> waiter_name_mapping env names waiter_name = None"
  by (simp add: waiter_name_mapping_def name_fold_absent)

lemma waiter_name_mapping_Some:
  "waiter_name \<in> xform_name env ` set names
     \<Longrightarrow> \<exists>name \<in> set names. xform_name env name = waiter_name
           \<and> waiter_name_mapping env names waiter_name = Some name"
  unfolding waiter_name_mapping_def by (rule name_fold_present)

text \<open>
  C7. \<open>get_waiter\<close> raises an error (\<open>ValueError\<close>) when there is no waiters file for the
  service, when the lazily loaded waiter configuration is empty, and when the name is not
  among the waiter names of the configuration normalized by \<open>xform_name\<close>. When the name
  is the normalized form of a waiter name of the configuration, the result is the waiter
  that \<open>create_waiter_with_client\<close> builds for that waiter name, the waiter model and the
  client.
\<close>

theorem get_waiter_by_normalized_name:
  "(cache self ''waiter_config'' = None
      \<and> (\<exists>x. loader_load_data env
                 (''aws/'' @ service_name sm @ ''/'' @ api_version sm @ ''.waiters'')
               = Inl (DataNotFoundError x))
     \<longrightarrow> fst (get_waiter env sm self waiter_name)
           = Inl (ValueError (''Waiter does not exist: '' @ waiter_name)))
   \<and> (\<forall>config. fst (get_waiter_config env sm self) = Inr config \<and> \<not> truthy config
        \<longrightarrow> fst (get_waiter env sm self waiter_name)
              = Inl (ValueError (''Waiter does not exist: '' @ waiter_name)))
   \<and> (\<forall>config model.
         fst (get_waiter_config env sm self) = Inr config \<and> truthy config
         \<and> new_waiter_model env config = Inr model
         \<and> waiter_name \<notin> xform_name env ` set (waiter_names model)
        \<longrightarrow> fst (get_waiter env sm self waiter_name)
              = Inl (ValueError (''Waiter does not exist: '' @ waiter_name)))
   \<and> (\<forall>config model.
         fst (get_waiter_config env sm self) = Inr config \<and> truthy config
         \<and> new_waiter_model env config = Inr model
         \<and> waiter_name \<in> xform_name env ` set (waiter_names model)
        \<longrightarrow> (\<exists>name \<in> set (waiter_names model).
               xform_name env name = waiter_name
               \<and> fst (get_waiter env sm self waiter_name)
                   = create_waiter_with_client env name model
                       (snd (get_waiter_config env sm self))))"
proof (intro conjI allI impI)
  assume "cache self ''waiter_config'' = None
      \<and> (\<exists>x. loader_load_data env
                 (''aws/'' @ service_name sm @ ''/'' @ api_version sm @ ''.waiters'')
               = Inl (DataNotFoundError x))"
  then show "fst (get_waiter env sm self waiter_name)
           = Inl (ValueError (''Waiter does not exist: '' @ waiter_name))"
    by (auto simp: get_waiter_def get_waiter_config_def)
next
  fix config
  assume "fst (get_waiter_config env sm self) = Inr config \<and> \<not> truthy config"
  then show "fst (get_waiter env sm self waiter_name)
           = Inl (ValueError (''Waiter does not exist: '' @ waiter_name))"
    by (cases "get_waiter_config env sm self") (simp add: get_waiter_def)
next
  fix config model
  assume a: "fst (get_waiter_config env sm self) = Inr config \<and> truthy config
         \<and> new_waiter_model env config = Inr model
         \<and> waiter_name \<notin> xform_name env ` set (waiter_names model)"
  then have "waiter_name_mapping env (waiter_names model) waiter_name = None"
    by (simp add: waiter_name_mapping_None)
  with a show "fst (get_waiter env sm self waiter_name)
           = Inl (ValueError (''Waiter does not exist: '' @ waiter_name))"
    by (cases "get_waiter_config env sm self") (simp add: get_waiter_def)
next
  fix config model
  assume a: "fst (get_waiter_config env sm self) = Inr config \<and> truthy config
         \<and> new_waiter_model env config = Inr model
         \<and> waiter_name \<in> xform_name env ` set (waiter_names model)"
  then obtain name where n: "name \<in> set (waiter_names model)"
    "xform_name env name = waiter_name"
    "waiter_name_mapping env (waiter_names model) waiter_name = Some name"
    using waiter_name_mapping_Some [of waiter_name env "waiter_names model"] by blast
  with a have "fst (get_waiter env sm self waiter_name)
                 = create_waiter_with_client env name model (snd (get_waiter_config env sm self))"
    by (cases "get_waiter_config env sm self") (simp add: get_waiter_def)
  with n show "\<exists>name \<in> set (waiter_names model).
               xform_name env name = waiter_name
               \<and> fst (get_waiter env sm self waiter_name)
                   = create_waiter_with_client env name model
                       (snd (get_waiter_config env sm self))"
    by blast
qed

theorem get_waiter_by_normalized_name_witness:
  "fst (get_waiter example_env s3_model example_client ''bucket_exists'')
     = Inr (Waiter ''BucketExists''
              \<lparr>waiter_config = JDict [(''version'', JInt 2),
                                       (''waiters'', JDict [(''BucketExists'', JDict [])])],
                waiter_names = [''BucketExists'']\<rparr> 5)
   \<and> fst (get_waiter example_env s3_model example_client ''no_such_waiter'')
     = Inl (ValueError ''Waiter does not exist: no_such_waiter'')"
proof -
  let ?config = "JDict [(''version'', JInt 2), (''waiters'', JDict [(''BucketExists'', JDict [])])]"
  let ?model = "\<lparr>waiter_config = ?config, waiter_names = [''BucketExists'']\<rparr>"
  have c: "get_waiter_config example_env s3_model example_client
           = (Inr ?config,
              example_client\<lparr>cache := (cache example_client)(''waiter_config'' \<mapsto> ?config)\<rparr>)"
    by (simp add: get_waiter_config_def example_env_def s3_model_def example_client_def)
  have m: "new_waiter_model example_env ?config = Inr ?model"
    by (simp add: example_env_def)
  have x: "xform_name example_env ''BucketExists'' = ''bucket_exists''"
    by (simp add: example_env_def)
  have w: "create_waiter_with_client example_env ''BucketExists'' ?model
             (example_client\<lparr>cache := (cache example_client)(''waiter_config'' \<mapsto> ?config)\<rparr>)
           = Inr (Waiter ''BucketExists'' ?model 5)"
    by (simp add: example_env_def example_client_def)
  have t: "truthy ?config"
    by simp
  have f: "fst (get_waiter_config example_env s3_model example_client) = Inr ?config"
    by (simp add: c)
  have i: "''bucket_exists'' \<in> xform_name example_env ` set (waiter_names ?model)"
    using x by simp
  have o: "''no_such_waiter'' \<notin> xform_name example_env ` set (waiter_names ?model)"
    using x by simp
  from get_waiter_by_normalized_name
         [of example_client example_env s3_model "''bucket_exists''",
          THEN conjunct2, THEN conjunct2, THEN conjunct2, rule_format, of ?config ?model]
       f t m i
  obtain name where "name \<in> set (waiter_names ?model)"
    and "fst (get_waiter example_env s3_model example_client ''bucket_exists'')
           = create_waiter_with_client example_env name ?model
               (snd (get_waiter_config example_env s3_model example_client))"
    by blast
  then have g: "fst (get_waiter example_env s3_model example_client ''bucket_exists'')
                  = Inr (Waiter ''BucketExists'' ?model 5)"
    using w by (simp add: c)
  from get_waiter_by_normalized_name
         [of example_client example_env s3_model "''no_such_waiter''",
          THEN conjunct2, THEN conjunct2, THEN conjunct1, rule_format, of ?config ?model]
       f t m o
  have "fst (get_waiter example_env s3_model example_client ''no_such_waiter'')
          = Inl (ValueError (''Waiter does not exist: '' @ ''no_such_waiter''))"
    by blast
  with g show ?thesis by simp
qed

end
